theory Spec2Isabelle
  imports Main "HOL-Library.Word"
begin

section \<open>BeagleBone Black I2C bus: a model of bbb-i2c.cpp\<close>

text \<open>
  The C++ class \<open>I2CBus\<close> wraps a Linux I2C character device. Each public function
  (\<open>Read\<close>, \<open>Write\<close>, \<open>Xfer\<close>) opens the bus file, binds it to a device address with
  \<open>ioctl\<close>, transfers data, and closes the file again. Failures are C++ exceptions.

  The model is a shallow embedding with explicit state passing.
  \<^item> C \<open>int\<close> values (file descriptors, lengths, results of system calls) are HOL
    integers. The code only compares them, it does no arithmetic on them. On the target
    (32-bit ARM) \<open>ssize_t\<close> and \<open>int\<close> have the same width and a \<open>std::string\<close> is
    never longer than \<open>INT_MAX\<close>, so none of the implicit conversions changes a value.
  \<^item> \<open>uint8_t\<close> is \<open>8 word\<close>; a buffer behind a \<open>uint8_t*\<close> is a list of bytes.
  \<^item> A thrown exception is the \<open>Inl\<close> branch of a sum; a caller's buffer and the state
    are returned next to it, since they survive the throw.
  \<^item> The operating system is a parameter: a record of functions over an abstract
    world \<open>'w\<close>. Every system call the code makes is appended to a log, so that
    statements such as "the read is never attempted" can be written down.
  \<^item> \<open>TEMP_FAILURE_RETRY\<close> is a loop that may run forever; it is a partial function in
    the option monad, and \<open>None\<close> means that the call does not return.
  \<^item> The \<open>std::lock_guard\<close> at the head of each public function has no effect on a
    single caller and is not modelled.
\<close>

subsection \<open>Exceptions\<close>

text \<open>
  \<open>class I2CException\<close> has the members \<open>message\<close>, \<open>procname\<close> and \<open>timeof_exc\<close>.
  \<open>I2CNotFoundException\<close> derives from it and adds nothing; the two classes are the two
  constructors of \<open>thrown\<close>.
\<close>

record exc =
  message :: string
  procname :: string
  timeof_exc :: int

text \<open>
  The constructor \<open>I2CException(msg, proc)\<close>: the first parameter becomes the message,
  the second the procedure name; \<open>now\<close> is the value of \<open>time(nullptr)\<close>.
\<close>

definition I2CException_ctor :: "string \<Rightarrow> string \<Rightarrow> int \<Rightarrow> exc" where
  "I2CException_ctor msg proc now = \<lparr>message = msg, procname = proc, timeof_exc = now\<rparr>"

datatype thrown = I2CException exc | I2CNotFoundException exc

fun exc_of :: "thrown \<Rightarrow> exc" where
  "exc_of (I2CException e) = e"
| "exc_of (I2CNotFoundException e) = e"

definition what :: "thrown \<Rightarrow> string" where
  "what t = message (exc_of t)"

definition why :: "thrown \<Rightarrow> string" where
  "why t = message (exc_of t)"

definition who :: "thrown \<Rightarrow> string" where
  "who t = procname (exc_of t)"

definition when_exc :: "thrown \<Rightarrow> int" where
  "when_exc t = timeof_exc (exc_of t)"

subsection \<open>The platform and the state\<close>

type_synonym byte = "8 word"

text \<open>
  The system calls the code uses. Each takes the world and returns its result with the
  new world.
  \<^item> \<open>sys_open path\<close>: \<open>::open(path, O_RDWR)\<close>.
  \<^item> \<open>sys_ioctl fd addr\<close>: \<open>ioctl(fd, I2C_SLAVE, addr)\<close>.
  \<^item> \<open>sys_read fd buf len\<close>: \<open>::read(fd, buf, len)\<close>; returns the count and the
    contents of the buffer after the call.
  \<^item> \<open>sys_write fd buf len\<close>: \<open>::write(fd, buf, len)\<close>.
  \<^item> \<open>sys_close fd\<close>: \<open>::close(fd)\<close>; returns the result and the error number that
    the call stores in \<open>errno\<close> when it fails.
  \<^item> \<open>sys_time\<close>: \<open>time(nullptr)\<close>.
\<close>

record 'w platform =
  sys_open :: "string \<Rightarrow> 'w \<Rightarrow> int \<times> 'w"
  sys_ioctl :: "int \<Rightarrow> byte \<Rightarrow> 'w \<Rightarrow> int \<times> 'w"
  sys_read :: "int \<Rightarrow> byte list \<Rightarrow> int \<Rightarrow> 'w \<Rightarrow> int \<times> byte list \<times> 'w"
  sys_write :: "int \<Rightarrow> byte list \<Rightarrow> int \<Rightarrow> 'w \<Rightarrow> int \<times> 'w"
  sys_close :: "int \<Rightarrow> 'w \<Rightarrow> int \<times> int \<times> 'w"
  sys_time :: "'w \<Rightarrow> int"

text \<open>The log: one entry per system call, with its arguments and its result last.\<close>

datatype syscall =
    OpenCall string int
  | IoctlCall int byte int
  | ReadCall int int int
  | WriteCall int "byte list" int int
  | CloseCall int int

fun is_read :: "syscall \<Rightarrow> bool" where
  "is_read (ReadCall fd len r) = True"
| "is_read c = False"

text \<open>
  \<open>busfile\<close> and \<open>file_desc\<close> are the data members of \<open>I2CBus\<close>; the code calls the
  second one \<open>file\<close>, a word that Isabelle reserves. \<open>errno\<close> is the error number of
  the C library, \<open>world\<close> the state of the platform and \<open>calls\<close> the log. The
  descriptor \<open>-1\<close> stands for "not open".
\<close>

record 'w state =
  busfile :: string
  file_desc :: int
  errno :: int
  world :: 'w
  calls :: "syscall list"

definition EINTR :: int where
  "EINTR = 4"

text \<open>The constructor \<open>I2CBus(bus)\<close> sets the file name and the descriptor \<open>-1\<close>.\<close>

definition I2CBus_ctor :: "string \<Rightarrow> 'w \<Rightarrow> 'w state" where
  "I2CBus_ctor bus w = \<lparr>busfile = bus, file_desc = -1, errno = 0, world = w, calls = []\<rparr>"

text \<open>The calls that a function has added to the log.\<close>

definition new_calls :: "'w state \<Rightarrow> 'w state \<Rightarrow> syscall list" where
  "new_calls s s' = drop (length (calls s)) (calls s')"

subsection \<open>One statement each: the system calls as the code issues them\<close>

text \<open>\<open>file = ::open(busfile, O_RDWR);\<close>\<close>

definition open_call :: "'w platform \<Rightarrow> 'w state \<Rightarrow> 'w state" where
  "open_call P s =
     (let (fd, w) = sys_open P (busfile s) (world s)
      in s\<lparr>file_desc := fd, world := w, calls := calls s @ [OpenCall (busfile s) fd]\<rparr>)"

text \<open>\<open>int ioresult = ioctl(file, I2C_SLAVE, addr);\<close>\<close>

definition ioctl_call :: "'w platform \<Rightarrow> byte \<Rightarrow> 'w state \<Rightarrow> int \<times> 'w state" where
  "ioctl_call P addr s =
     (let (ioresult, w) = sys_ioctl P (file_desc s) addr (world s)
      in (ioresult, s\<lparr>world := w, calls := calls s @ [IoctlCall (file_desc s) addr ioresult]\<rparr>))"

text \<open>\<open>::read(file, data, len)\<close>\<close>

definition read_call ::
  "'w platform \<Rightarrow> byte list \<Rightarrow> int \<Rightarrow> 'w state \<Rightarrow> int \<times> byte list \<times> 'w state" where
  "read_call P data len s =
     (let (n, buf, w) = sys_read P (file_desc s) data len (world s)
      in (n, buf, s\<lparr>world := w, calls := calls s @ [ReadCall (file_desc s) len n]\<rparr>))"

text \<open>\<open>::write(file, data, len)\<close>\<close>

definition write_call ::
  "'w platform \<Rightarrow> byte list \<Rightarrow> int \<Rightarrow> 'w state \<Rightarrow> int \<times> 'w state" where
  "write_call P data len s =
     (let (n, w) = sys_write P (file_desc s) data len (world s)
      in (n, s\<lparr>world := w, calls := calls s @ [WriteCall (file_desc s) data len n]\<rparr>))"

text \<open>\<open>::close(file)\<close>; a failing call stores its error number in \<open>errno\<close>.\<close>

definition close_call :: "'w platform \<Rightarrow> 'w state \<Rightarrow> int \<times> 'w state" where
  "close_call P s =
     (let (r, e, w) = sys_close P (file_desc s) (world s)
      in (r, s\<lparr>errno := (if r < 0 then e else errno s), world := w,
                calls := calls s @ [CloseCall (file_desc s) r]\<rparr>))"

subsection \<open>Close\<close>

text \<open>
  The glibc macro \<open>TEMP_FAILURE_RETRY (::close(file))\<close> evaluates the call, and again
  for as long as the result is \<open>-1\<close> and \<open>errno\<close> is \<open>EINTR\<close>:
  \<^verbatim>\<open>do __result = (long int) (expression); while (__result == -1L && errno == EINTR);\<close>
\<close>

partial_function (option) TEMP_FAILURE_RETRY_close ::
  "'w platform \<Rightarrow> 'w state \<Rightarrow> 'w state option" where
  "TEMP_FAILURE_RETRY_close P s =
     (let (r, s1) = close_call P s
      in if r = -1 \<and> errno s1 = EINTR then TEMP_FAILURE_RETRY_close P s1 else Some s1)"

declare TEMP_FAILURE_RETRY_close.simps [code]

definition Close :: "'w platform \<Rightarrow> 'w state \<Rightarrow> 'w state option" where
  "Close P s =
     (let s0 = s\<lparr>errno := 0\<rparr>
      in if file_desc s0 \<noteq> -1 then
           (let (closeresult, s1) = close_call P s0
            in if closeresult < 0 then
                 (if errno s1 = EINTR then
                    (case TEMP_FAILURE_RETRY_close P s1 of
                       None \<Rightarrow> None
                     | Some s2 \<Rightarrow> Some (s2\<lparr>file_desc := -1\<rparr>))
                  else Some (s1\<lparr>file_desc := -1\<rparr>))
               else Some (s1\<lparr>file_desc := -1\<rparr>))
         else Some s0)"

subsection \<open>Open\<close>

text \<open>
  \<open>hex << uppercase << setfill('0') << setw(2) << (unsigned int)addr\<close>: two upper-case
  hexadecimal digits.
\<close>

definition hex_digit :: "nat \<Rightarrow> char" where
  "hex_digit n = ''0123456789ABCDEF'' ! (n mod 16)"

definition hex2 :: "byte \<Rightarrow> string" where
  "hex2 addr = [hex_digit (unat addr div 16), hex_digit (unat addr mod 16)]"

text \<open>
  The exceptions are built as the code builds them: the first argument of the
  constructor is the text that the code passes first.
\<close>

definition Open :: "'w platform \<Rightarrow> byte \<Rightarrow> 'w state \<Rightarrow> ((thrown + unit) \<times> 'w state) option" where
  "Open P addr s =
     (let s1 = open_call P s
      in if file_desc s1 < 0 then
           Some (Inl (I2CException (I2CException_ctor ''I2CBus::Open(addr)''
                   (''Unable to open I2C Bus file '' @ busfile s1) (sys_time P (world s1)))), s1)
         else
           (let (ioresult, s2) = ioctl_call P addr s1
            in if ioresult < 0 then
                 (case Close P s2 of
                    None \<Rightarrow> None
                  | Some s3 \<Rightarrow>
                      Some (Inl (I2CNotFoundException (I2CException_ctor ''I2CBus::Open(addr)''
                              (''Unable to find device address 0x'' @ hex2 addr)
                              (sys_time P (world s3)))), s3))
               else Some (Inr (), s2)))"

subsection \<open>Read, Write, Xfer\<close>

definition Read ::
  "'w platform \<Rightarrow> byte list \<Rightarrow> int \<Rightarrow> byte \<Rightarrow> 'w state
     \<Rightarrow> ((thrown + unit) \<times> byte list \<times> 'w state) option" where
  "Read P data len addr s =
     (case Open P addr s of
        None \<Rightarrow> None
      | Some (Inl e, s1) \<Rightarrow> Some (Inl e, data, s1)
      | Some (Inr u, s1) \<Rightarrow>
          (let (recvd, buf, s2) = read_call P data len s1
           in case Close P s2 of
                None \<Rightarrow> None
              | Some s3 \<Rightarrow>
                  if recvd \<noteq> len then
                    Some (Inl (I2CException (I2CException_ctor ''I2CBus::Read(data, len, addr)''
                            ''Read length error.'' (sys_time P (world s3)))), buf, s3)
                  else Some (Inr (), buf, s3)))"

definition Write ::
  "'w platform \<Rightarrow> byte list \<Rightarrow> int \<Rightarrow> byte \<Rightarrow> 'w state
     \<Rightarrow> ((thrown + unit) \<times> 'w state) option" where
  "Write P data len addr s =
     (case Open P addr s of
        None \<Rightarrow> None
      | Some (Inl e, s1) \<Rightarrow> Some (Inl e, s1)
      | Some (Inr u, s1) \<Rightarrow>
          (let (sent, s2) = write_call P data len s1
           in case Close P s2 of
                None \<Rightarrow> None
              | Some s3 \<Rightarrow>
                  if sent \<noteq> len then
                    Some (Inl (I2CException (I2CException_ctor ''I2CBus::Write(data, len, addr)''
                            ''Write length error.'' (sys_time P (world s3)))), s3)
                  else Some (Inr (), s3)))"

text \<open>
  \<open>dat.c_str()\<close> points to the characters of the string followed by a zero byte;
  \<open>dat.size()\<close> does not count that byte.
\<close>

definition c_str :: "string \<Rightarrow> byte list" where
  "c_str dat = map of_char dat @ [0]"

definition Write_string ::
  "'w platform \<Rightarrow> string \<Rightarrow> byte \<Rightarrow> 'w state \<Rightarrow> ((thrown + unit) \<times> 'w state) option" where
  "Write_string P dat addr s =
     (let len = int (length dat)
      in case Open P addr s of
           None \<Rightarrow> None
         | Some (Inl e, s1) \<Rightarrow> Some (Inl e, s1)
         | Some (Inr u, s1) \<Rightarrow>
             (let (sent, s2) = write_call P (c_str dat) len s1
              in case Close P s2 of
                   None \<Rightarrow> None
                 | Some s3 \<Rightarrow>
                     if sent \<noteq> len then
                       Some (Inl (I2CException (I2CException_ctor ''I2CBus::Write(dat, addr)''
                               ''Write length error.'' (sys_time P (world s3)))), s3)
                     else Some (Inr (), s3)))"

definition Xfer ::
  "'w platform \<Rightarrow> byte list \<Rightarrow> int \<Rightarrow> byte list \<Rightarrow> int \<Rightarrow> byte \<Rightarrow> 'w state
     \<Rightarrow> ((thrown + unit) \<times> byte list \<times> 'w state) option" where
  "Xfer P odat olen idat ilen i2caddr s =
     (case Open P i2caddr s of
        None \<Rightarrow> None
      | Some (Inl e, s1) \<Rightarrow> Some (Inl e, idat, s1)
      | Some (Inr u, s1) \<Rightarrow>
          (let (count, s2) = write_call P odat olen s1
           in if count \<noteq> olen then
                (case Close P s2 of
                   None \<Rightarrow> None
                 | Some s3 \<Rightarrow>
                     Some (Inl (I2CException (I2CException_ctor
                             ''I2CConnection::Xfer(odat, olen, idat, ilen, i2caddr)''
                             ''Write length error.'' (sys_time P (world s3)))), idat, s3))
              else
                (let (count2, buf, s3) = read_call P idat ilen s2
                 in case Close P s3 of
                      None \<Rightarrow> None
                    | Some s4 \<Rightarrow>
                        if count2 \<noteq> ilen then
                          Some (Inl (I2CException (I2CException_ctor
                                  ''I2CConnection::Xfer(odat, olen, idat, ilen, i2caddr)''
                                  ''Read length error.'' (sys_time P (world s4)))), buf, s4)
                        else Some (Inr (), buf, s4))))"

subsection \<open>Predicates on the log and on results\<close>

text \<open>\<open>only_close fd cs\<close>: every call in \<open>cs\<close> is a \<open>::close\<close> of the descriptor \<open>fd\<close>.\<close>

fun only_close :: "int \<Rightarrow> syscall list \<Rightarrow> bool" where
  "only_close fd [] = True"
| "only_close fd (CloseCall f r # cs) = (f = fd \<and> only_close fd cs)"
| "only_close fd (c # cs) = False"

text \<open>The exception that a call has thrown, if it has returned by throwing.\<close>

definition raised :: "((thrown + unit) \<times> 'a) option \<Rightarrow> thrown option" where
  "raised r = (case r of Some (Inl t, x) \<Rightarrow> Some t | _ \<Rightarrow> None)"

text \<open>
  \<open>not_found_log path addr cs\<close>: the log of a session whose binding step failed. The
  file \<open>path\<close> was opened with a descriptor \<open>fd\<close>, the \<open>ioctl\<close> for \<open>addr\<close> on \<open>fd\<close>
  failed, and all that follows is at least one \<open>::close\<close> of \<open>fd\<close>.
\<close>

fun not_found_log :: "string \<Rightarrow> byte \<Rightarrow> syscall list \<Rightarrow> bool" where
  "not_found_log path addr (OpenCall p fd # IoctlCall f a io # cs) =
     (p = path \<and> f = fd \<and> a = addr \<and> 0 \<le> fd \<and> io < 0 \<and> cs \<noteq> [] \<and> only_close fd cs)"
| "not_found_log path addr cs = False"



fun is_generic :: "thrown + unit \<Rightarrow> bool" where
  "is_generic (Inl (I2CException e)) = True"
| "is_generic r = False"

fun is_open :: "syscall \<Rightarrow> bool" where
  "is_open (OpenCall path fd) = True"
| "is_open c = False"

fun is_ioctl :: "syscall \<Rightarrow> bool" where
  "is_ioctl (IoctlCall fd a io) = True"
| "is_ioctl c = False"

fun is_write :: "syscall \<Rightarrow> bool" where
  "is_write (WriteCall fd d l n) = True"
| "is_write c = False"

text \<open>No system call other than \<open>::close\<close> occurs twice in the log.\<close>

definition no_repeats :: "syscall list \<Rightarrow> bool" where
  "no_repeats cs =
     (length (filter is_open cs) \<le> 1 \<and> length (filter is_ioctl cs) \<le> 1 \<and>
      length (filter is_read cs) \<le> 1 \<and> length (filter is_write cs) \<le> 1)"


text \<open>
  \<open>close_world P fd n w\<close> is the world after \<open>n\<close> calls of \<open>::close(fd)\<close> that start in
  the world \<open>w\<close>, and \<open>interrupted P fd w\<close> says that \<open>::close(fd)\<close> in the world \<open>w\<close>
  returns \<open>-1\<close> with the error number \<open>EINTR\<close>.
\<close>

fun close_world :: "'w platform \<Rightarrow> int \<Rightarrow> nat \<Rightarrow> 'w \<Rightarrow> 'w" where
  "close_world P fd 0 w = w"
| "close_world P fd (Suc n) w = close_world P fd n (snd (snd (sys_close P fd w)))"

definition interrupted :: "'w platform \<Rightarrow> int \<Rightarrow> 'w \<Rightarrow> bool" where
  "interrupted P fd w = (case sys_close P fd w of (r, e, w') \<Rightarrow> r = -1 \<and> e = EINTR)"

text \<open>
  \<open>session_released path fd cs\<close>: the log \<open>cs\<close> of a session starts with the \<open>::open\<close> of
  \<open>path\<close> that returned \<open>fd\<close>, has no other \<open>::open\<close>, and ends with a \<open>::close\<close> of
  \<open>fd\<close>. \<open>ends_closed P s s'\<close> says how a session that starts in \<open>s\<close> has left the bus
  in \<open>s'\<close>: if \<open>::open\<close> has failed, it is the only call made and the member holds its
  result; otherwise the member is \<open>-1\<close> and the descriptor has been released.
\<close>

definition session_released :: "string \<Rightarrow> int \<Rightarrow> syscall list \<Rightarrow> bool" where
  "session_released path fd cs =
     (cs \<noteq> [] \<and> hd cs = OpenCall path fd \<and> length (filter is_open cs) = 1 \<and>
      (case last cs of CloseCall f r \<Rightarrow> f = fd | _ \<Rightarrow> False))"

definition ends_closed :: "'w platform \<Rightarrow> 'w state \<Rightarrow> 'w state \<Rightarrow> bool" where
  "ends_closed P s s' =
     (let fd = fst (sys_open P (busfile s) (world s))
      in if fd < 0 then file_desc s' = fd \<and> new_calls s s' = [OpenCall (busfile s) fd]
         else file_desc s' = -1 \<and> session_released (busfile s) fd (new_calls s s'))"

subsection \<open>The Xfer overload that starts with an address byte\<close>

text \<open>
  Modelled from the spec: the body of
  \<open>I2CBus::Xfer(uint8_t addr, uint8_t* idat, int ilen, uint8_t i2caddr)\<close>. The header
  declares this overload, and \<open>bbb-i2c.cpp\<close> does not define it. The spec says of it:
  "convenience variant; writes a single address byte, then reads \<open>inLength\<close> bytes, same
  semantics as above", where "above" is the five-argument \<open>Xfer\<close>.
\<close>

definition Xfer_addr ::
  "'w platform \<Rightarrow> byte \<Rightarrow> byte list \<Rightarrow> int \<Rightarrow> byte \<Rightarrow> 'w state
     \<Rightarrow> ((thrown + unit) \<times> byte list \<times> 'w state) option" where
  "Xfer_addr P addr idat ilen i2caddr s = Xfer P [addr] 1 idat ilen i2caddr s"

subsection \<open>A scripted platform for concrete runs\<close>

text \<open>
  \<open>demo_platform fd io rcount rbytes wcount\<close> answers \<open>::open\<close> with \<open>fd\<close>, \<open>ioctl\<close>
  with \<open>io\<close>, \<open>::read\<close> with the count \<open>rcount\<close> after storing \<open>rbytes\<close> at the start of
  the buffer, and \<open>::write\<close> with \<open>wcount\<close>. Its world is the list of the answers that
  \<open>::close\<close> still has to give (result and error number); once the list is used up,
  \<open>::close\<close> succeeds.
\<close>

definition demo_platform ::
  "int \<Rightarrow> int \<Rightarrow> int \<Rightarrow> byte list \<Rightarrow> int \<Rightarrow> ((int \<times> int) list) platform" where
  "demo_platform fd io rcount rbytes wcount =
     \<lparr>sys_open = (\<lambda>path w. (fd, w)),
      sys_ioctl = (\<lambda>f a w. (io, w)),
      sys_read = (\<lambda>f buf len w. (rcount, rbytes @ drop (length rbytes) buf, w)),
      sys_write = (\<lambda>f buf len w. (wcount, w)),
      sys_close = (\<lambda>f w. case w of [] \<Rightarrow> (0, 0, []) | (r, e) # w' \<Rightarrow> (r, e, w')),
      sys_time = (\<lambda>w. 1536000000)\<rparr>"

text \<open>
  \<open>stuck_platform\<close> is a platform whose \<open>::close\<close> is interrupted every time; its world
  has one state.
\<close>

definition stuck_platform :: "unit platform" where
  "stuck_platform =
     \<lparr>sys_open = (\<lambda>path w. (3, w)),
      sys_ioctl = (\<lambda>f a w. (0, w)),
      sys_read = (\<lambda>f buf len w. (len, buf, w)),
      sys_write = (\<lambda>f buf len w. (len, w)),
      sys_close = (\<lambda>f w. (-1, EINTR, w)),
      sys_time = (\<lambda>w. 1536000000)\<rparr>"

section \<open>Properties\<close>

subsection \<open>What each function adds to the log\<close>

lemma only_close_append: "only_close fd (xs @ ys) = (only_close fd xs \<and> only_close fd ys)"
  by (induction fd xs rule: only_close.induct) auto

lemma only_close_filters:
  assumes "only_close fd cs"
  shows "filter is_open cs = []" "filter is_ioctl cs = []" "filter is_read cs = []"
    "filter is_write cs = []"
  using assms by (induction fd cs rule: only_close.induct) auto

lemma only_close_mem: "only_close fd cs \<Longrightarrow> c \<in> set cs \<Longrightarrow> \<exists>r. c = CloseCall fd r"
  by (induction fd cs rule: only_close.induct) auto

lemma only_close_last: "only_close fd cs \<Longrightarrow> cs \<noteq> [] \<Longrightarrow> \<exists>r. last cs = CloseCall fd r"
  using only_close_mem [of fd cs "last cs"] by simp

lemma close_call_props:
  assumes "close_call P s = (r, s1)"
  shows "file_desc s1 = file_desc s" and "busfile s1 = busfile s"
    and "calls s1 = calls s @ [CloseCall (file_desc s) r]"
  using assms by (auto simp: close_call_def split: prod.splits)

lemma retry_shape:
  assumes "TEMP_FAILURE_RETRY_close P s = Some s'"
  shows "file_desc s' = file_desc s \<and> busfile s' = busfile s \<and>
         (\<exists>cs. calls s' = calls s @ cs \<and> cs \<noteq> [] \<and> only_close (file_desc s) cs)"
proof -
  let ?Q = "\<lambda>(ps :: 'a platform \<times> 'a state) t'. file_desc t' = file_desc (snd ps) \<and>
      busfile t' = busfile (snd ps) \<and>
      (\<exists>cs. calls t' = calls (snd ps) @ cs \<and> cs \<noteq> [] \<and> only_close (file_desc (snd ps)) cs)"
  have "?Q (P, s) s'"
  proof (rule TEMP_FAILURE_RETRY_close.raw_induct [where Pa = ?Q, OF _ assms])
    fix retry and P :: "'a platform" and t t' :: "'a state"
    assume IH: "\<And>P t t'. retry P t = Some t' \<Longrightarrow> ?Q (P, t) t'"
      and eq: "(let (r, s1) = close_call P t
                in if r = -1 \<and> errno s1 = EINTR then retry P s1 else Some s1) = Some t'"
    obtain r s1 where c: "close_call P t = (r, s1)" by (cases "close_call P t")
    note cp = close_call_props [OF c]
    show "?Q (P, t) t'"
    proof (cases "r = -1 \<and> errno s1 = EINTR")
      case True
      with eq c have "retry P s1 = Some t'" by simp
      from IH [OF this] cp show ?thesis
        by (auto simp: only_close_append)
    next
      case False
      with eq c have "t' = s1" by auto
      with cp show ?thesis by simp
    qed
  qed
  then show ?thesis by simp
qed

lemma Close_closed: "file_desc s = -1 \<Longrightarrow> Close P s = Some (s\<lparr>errno := 0\<rparr>)"
  by (simp add: Close_def)

lemma Close_shape:
  assumes "Close P s = Some s'"
  shows "file_desc s' = -1 \<and> busfile s' = busfile s \<and>
         (\<exists>cs. calls s' = calls s @ cs \<and> only_close (file_desc s) cs \<and>
               (file_desc s \<noteq> -1 \<longrightarrow> cs \<noteq> []))"
proof (cases "file_desc s = -1")
  case True
  with assms have "s' = s\<lparr>errno := 0\<rparr>" by (simp add: Close_closed)
  with True show ?thesis by simp
next
  case False
  obtain r s1 where c: "close_call P (s\<lparr>errno := 0\<rparr>) = (r, s1)"
    by (cases "close_call P (s\<lparr>errno := 0\<rparr>)")
  note cp = close_call_props [OF c]
  show ?thesis
  proof (cases "r < 0 \<and> errno s1 = EINTR")
    case True
    with assms False c obtain s2 where r: "TEMP_FAILURE_RETRY_close P s1 = Some s2"
      and s': "s' = s2\<lparr>file_desc := -1\<rparr>"
      by (auto simp: Close_def split: option.splits)
    from retry_shape [OF r] cp s' show ?thesis
      by (auto simp: only_close_append)
  next
    case False
    with assms \<open>file_desc s \<noteq> -1\<close> c have "s' = s1\<lparr>file_desc := -1\<rparr>"
      by (auto simp: Close_def split: if_splits)
    with cp show ?thesis by simp
  qed
qed


lemma open_call_props:
  shows "file_desc (open_call P s) = fst (sys_open P (busfile s) (world s))"
    and "busfile (open_call P s) = busfile s"
    and "calls (open_call P s) = calls s @ [OpenCall (busfile s) (fst (sys_open P (busfile s) (world s)))]"
  by (auto simp: open_call_def split: prod.splits)

lemma ioctl_call_props:
  assumes "ioctl_call P addr s = (io, s1)"
  shows "file_desc s1 = file_desc s" and "busfile s1 = busfile s"
    and "calls s1 = calls s @ [IoctlCall (file_desc s) addr io]"
  using assms by (auto simp: ioctl_call_def split: prod.splits)

lemma read_call_props:
  assumes "read_call P data len s = (n, buf, s1)"
  shows "file_desc s1 = file_desc s" and "busfile s1 = busfile s"
    and "calls s1 = calls s @ [ReadCall (file_desc s) len n]"
    and "buf = fst (snd (sys_read P (file_desc s) data len (world s)))"
    and "n = fst (sys_read P (file_desc s) data len (world s))"
  using assms by (auto simp: read_call_def split: prod.splits)

lemma write_call_props:
  assumes "write_call P data len s = (n, s1)"
  shows "file_desc s1 = file_desc s" and "busfile s1 = busfile s"
    and "calls s1 = calls s @ [WriteCall (file_desc s) data len n]"
  using assms by (auto simp: write_call_def split: prod.splits)

lemma new_calls_append: "calls s' = calls s @ cs \<Longrightarrow> new_calls s s' = cs"
  by (simp add: new_calls_def)

lemma Open_log:
  assumes "Open P addr s = Some (res, s1)"
  obtains
    (open_failed) fd e where "fd = fst (sys_open P (busfile s) (world s))" "fd < 0"
      "res = Inl (I2CException e)" "file_desc s1 = fd" "busfile s1 = busfile s"
      "calls s1 = calls s @ [OpenCall (busfile s) fd]"
  | (not_found) fd io cs e where "fd = fst (sys_open P (busfile s) (world s))" "0 \<le> fd" "io < 0"
      "res = Inl (I2CNotFoundException e)" "file_desc s1 = -1" "busfile s1 = busfile s"
      "cs \<noteq> []" "only_close fd cs"
      "calls s1 = calls s @ [OpenCall (busfile s) fd, IoctlCall fd addr io] @ cs"
  | (bound) fd io where "fd = fst (sys_open P (busfile s) (world s))" "0 \<le> fd" "0 \<le> io"
      "res = Inr ()" "file_desc s1 = fd" "busfile s1 = busfile s"
      "calls s1 = calls s @ [OpenCall (busfile s) fd, IoctlCall fd addr io]"
proof -
  let ?s1 = "open_call P s"
  note op = open_call_props [of P s]
  show ?thesis
  proof (cases "file_desc ?s1 < 0")
    case True
    with assms have "s1 = ?s1" and "\<exists>e. res = Inl (I2CException e)"
      by (auto simp: Open_def Let_def)
    with True op open_failed show ?thesis by auto
  next
    case False
    obtain io s2 where i: "ioctl_call P addr ?s1 = (io, s2)" by (cases "ioctl_call P addr ?s1")
    note ip = ioctl_call_props [OF i]
    show ?thesis
    proof (cases "io < 0")
      case True
      with assms False i obtain s3 e where c: "Close P s2 = Some s3" and "s1 = s3"
        and "res = Inl (I2CNotFoundException e)"
        by (auto simp: Open_def Let_def split: option.splits)
      with Close_shape [OF c] False True op ip not_found show ?thesis
        by auto
    next
      case io: False
      with assms False i have "s1 = s2" and "res = Inr ()"
        by (auto simp: Open_def Let_def)
      with False io op ip bound show ?thesis by auto
    qed
  qed
qed

lemma Read_cases:
  assumes "Read P data len addr s = Some (res, buf, s')"
  shows "(\<exists>e. Open P addr s = Some (Inl e, s') \<and> res = Inl e \<and> buf = data)
       \<or> (\<exists>s1 n s2. Open P addr s = Some (Inr (), s1) \<and> read_call P data len s1 = (n, buf, s2) \<and>
             Close P s2 = Some s' \<and>
             res = (if n \<noteq> len then Inl (I2CException (I2CException_ctor
                      ''I2CBus::Read(data, len, addr)'' ''Read length error.''
                      (sys_time P (world s')))) else Inr ()))"
  using assms
  by (auto simp: Read_def split: option.splits sum.splits prod.splits if_splits)

lemma Read_log:
  assumes "Read P data len addr s = Some (res, buf, s')"
  obtains
    (open_failed) fd e where "fd = fst (sys_open P (busfile s) (world s))" "fd < 0"
      "res = Inl (I2CException e)" "file_desc s' = fd" "busfile s' = busfile s" "buf = data"
      "calls s' = calls s @ [OpenCall (busfile s) fd]"
  | (not_found) fd io cs e where "fd = fst (sys_open P (busfile s) (world s))" "0 \<le> fd" "io < 0"
      "res = Inl (I2CNotFoundException e)" "file_desc s' = -1" "busfile s' = busfile s" "buf = data"
      "cs \<noteq> []" "only_close fd cs"
      "calls s' = calls s @ [OpenCall (busfile s) fd, IoctlCall fd addr io] @ cs"
  | (transfer) fd io n cs where "fd = fst (sys_open P (busfile s) (world s))" "0 \<le> fd" "0 \<le> io"
      "file_desc s' = -1" "busfile s' = busfile s" "cs \<noteq> []" "only_close fd cs"
      "calls s' = calls s @ [OpenCall (busfile s) fd, IoctlCall fd addr io, ReadCall fd len n] @ cs"
      "res = (if n \<noteq> len then Inl (I2CException (I2CException_ctor
                ''I2CBus::Read(data, len, addr)'' ''Read length error.''
                (sys_time P (world s')))) else Inr ())"
proof -
  from Read_cases [OF assms] consider
    (a) e where "Open P addr s = Some (Inl e, s')" "res = Inl e" "buf = data"
  | (b) s1 n s2 where "Open P addr s = Some (Inr (), s1)" "read_call P data len s1 = (n, buf, s2)"
      "Close P s2 = Some s'"
      "res = (if n \<noteq> len then Inl (I2CException (I2CException_ctor
                ''I2CBus::Read(data, len, addr)'' ''Read length error.''
                (sys_time P (world s')))) else Inr ())"
    by blast
  then show ?thesis
  proof cases
    case a
    from a(1) show ?thesis
    proof (cases rule: Open_log)
      case (open_failed fd e')
      with a that(1) show ?thesis by auto
    next
      case (not_found fd io cs e')
      with a that(2) show ?thesis by auto
    next
      case (bound fd io)
      with a show ?thesis by simp
    qed
  next
    case b
    note rp = read_call_props [OF b(2)]
    from b(1) show ?thesis
    proof (cases rule: Open_log)
      case (bound fd io)
      from Close_shape [OF b(3)] obtain cs where cs: "file_desc s' = -1" "busfile s' = busfile s2"
        "calls s' = calls s2 @ cs" "only_close (file_desc s2) cs" "file_desc s2 \<noteq> -1 \<longrightarrow> cs \<noteq> []"
        by blast
      show ?thesis
      proof (rule that(3) [of fd io cs n])
        show "cs \<noteq> []" using cs bound rp by auto
      qed (use cs bound rp b(4) in auto)
    qed simp_all
  qed
qed

lemma Write_cases:
  assumes "Write P data len addr s = Some (res, s')"
  shows "(\<exists>e. Open P addr s = Some (Inl e, s') \<and> res = Inl e)
       \<or> (\<exists>s1 n s2. Open P addr s = Some (Inr (), s1) \<and> write_call P data len s1 = (n, s2) \<and>
             Close P s2 = Some s' \<and>
             res = (if n \<noteq> len then Inl (I2CException (I2CException_ctor
                      ''I2CBus::Write(data, len, addr)'' ''Write length error.''
                      (sys_time P (world s')))) else Inr ()))"
  using assms
  by (auto simp: Write_def split: option.splits sum.splits prod.splits if_splits)

lemma Write_log:
  assumes "Write P data len addr s = Some (res, s')"
  obtains
    (open_failed) fd e where "fd = fst (sys_open P (busfile s) (world s))" "fd < 0"
      "res = Inl (I2CException e)" "file_desc s' = fd" "busfile s' = busfile s"
      "calls s' = calls s @ [OpenCall (busfile s) fd]"
  | (not_found) fd io cs e where "fd = fst (sys_open P (busfile s) (world s))" "0 \<le> fd" "io < 0"
      "res = Inl (I2CNotFoundException e)" "file_desc s' = -1" "busfile s' = busfile s"
      "cs \<noteq> []" "only_close fd cs"
      "calls s' = calls s @ [OpenCall (busfile s) fd, IoctlCall fd addr io] @ cs"
  | (transfer) fd io n cs where "fd = fst (sys_open P (busfile s) (world s))" "0 \<le> fd" "0 \<le> io"
      "file_desc s' = -1" "busfile s' = busfile s" "cs \<noteq> []" "only_close fd cs"
      "calls s' = calls s @ [OpenCall (busfile s) fd, IoctlCall fd addr io, WriteCall fd data len n] @ cs"
      "res = (if n \<noteq> len then Inl (I2CException (I2CException_ctor
                ''I2CBus::Write(data, len, addr)'' ''Write length error.''
                (sys_time P (world s')))) else Inr ())"
proof -
  from Write_cases [OF assms] consider
    (a) e where "Open P addr s = Some (Inl e, s')" "res = Inl e"
  | (b) s1 n s2 where "Open P addr s = Some (Inr (), s1)" "write_call P data len s1 = (n, s2)"
      "Close P s2 = Some s'"
      "res = (if n \<noteq> len then Inl (I2CException (I2CException_ctor
                ''I2CBus::Write(data, len, addr)'' ''Write length error.''
                (sys_time P (world s')))) else Inr ())"
    by blast
  then show ?thesis
  proof cases
    case a
    from a(1) show ?thesis
    proof (cases rule: Open_log)
      case (open_failed fd e')
      with a that(1) show ?thesis by auto
    next
      case (not_found fd io cs e')
      with a that(2) show ?thesis by auto
    next
      case (bound fd io)
      with a show ?thesis by simp
    qed
  next
    case b
    note wp = write_call_props [OF b(2)]
    from b(1) show ?thesis
    proof (cases rule: Open_log)
      case (bound fd io)
      from Close_shape [OF b(3)] obtain cs where cs: "file_desc s' = -1" "busfile s' = busfile s2"
        "calls s' = calls s2 @ cs" "only_close (file_desc s2) cs" "file_desc s2 \<noteq> -1 \<longrightarrow> cs \<noteq> []"
        by blast
      show ?thesis
      proof (rule that(3) [of fd io cs n])
        show "cs \<noteq> []" using cs bound wp by auto
      qed (use cs bound wp b(4) in auto)
    qed simp_all
  qed
qed

lemma Write_string_cases:
  assumes "Write_string P dat addr s = Some (res, s')"
  shows "(\<exists>e. Open P addr s = Some (Inl e, s') \<and> res = Inl e)
       \<or> (\<exists>s1 n s2. Open P addr s = Some (Inr (), s1) \<and>
             write_call P (c_str dat) (int (length dat)) s1 = (n, s2) \<and>
             Close P s2 = Some s' \<and>
             res = (if n \<noteq> int (length dat) then Inl (I2CException (I2CException_ctor
                      ''I2CBus::Write(dat, addr)'' ''Write length error.''
                      (sys_time P (world s')))) else Inr ()))"
  using assms
  by (auto simp: Write_string_def Let_def split: option.splits sum.splits prod.splits if_splits)

lemma Write_string_log:
  assumes "Write_string P dat addr s = Some (res, s')"
  obtains
    (open_failed) fd e where "fd = fst (sys_open P (busfile s) (world s))" "fd < 0"
      "res = Inl (I2CException e)" "file_desc s' = fd" "busfile s' = busfile s"
      "calls s' = calls s @ [OpenCall (busfile s) fd]"
  | (not_found) fd io cs e where "fd = fst (sys_open P (busfile s) (world s))" "0 \<le> fd" "io < 0"
      "res = Inl (I2CNotFoundException e)" "file_desc s' = -1" "busfile s' = busfile s"
      "cs \<noteq> []" "only_close fd cs"
      "calls s' = calls s @ [OpenCall (busfile s) fd, IoctlCall fd addr io] @ cs"
  | (transfer) fd io n cs where "fd = fst (sys_open P (busfile s) (world s))" "0 \<le> fd" "0 \<le> io"
      "file_desc s' = -1" "busfile s' = busfile s" "cs \<noteq> []" "only_close fd cs"
      "calls s' = calls s @ [OpenCall (busfile s) fd, IoctlCall fd addr io,
          WriteCall fd (c_str dat) (int (length dat)) n] @ cs"
      "res = (if n \<noteq> int (length dat) then Inl (I2CException (I2CException_ctor
                ''I2CBus::Write(dat, addr)'' ''Write length error.''
                (sys_time P (world s')))) else Inr ())"
proof -
  from Write_string_cases [OF assms] consider
    (a) e where "Open P addr s = Some (Inl e, s')" "res = Inl e"
  | (b) s1 n s2 where "Open P addr s = Some (Inr (), s1)"
      "write_call P (c_str dat) (int (length dat)) s1 = (n, s2)"
      "Close P s2 = Some s'"
      "res = (if n \<noteq> int (length dat) then Inl (I2CException (I2CException_ctor
                ''I2CBus::Write(dat, addr)'' ''Write length error.''
                (sys_time P (world s')))) else Inr ())"
    by blast
  then show ?thesis
  proof cases
    case a
    from a(1) show ?thesis
    proof (cases rule: Open_log)
      case (open_failed fd e')
      with a that(1) show ?thesis by auto
    next
      case (not_found fd io cs e')
      with a that(2) show ?thesis by auto
    next
      case (bound fd io)
      with a show ?thesis by simp
    qed
  next
    case b
    note wp = write_call_props [OF b(2)]
    from b(1) show ?thesis
    proof (cases rule: Open_log)
      case (bound fd io)
      from Close_shape [OF b(3)] obtain cs where cs: "file_desc s' = -1" "busfile s' = busfile s2"
        "calls s' = calls s2 @ cs" "only_close (file_desc s2) cs" "file_desc s2 \<noteq> -1 \<longrightarrow> cs \<noteq> []"
        by blast
      show ?thesis
      proof (rule that(3) [of fd io cs n])
        show "cs \<noteq> []" using cs bound wp by auto
      qed (use cs bound wp b(4) in auto)
    qed simp_all
  qed
qed

lemma Xfer_cases:
  assumes "Xfer P odat olen idat ilen i2caddr s = Some (res, buf, s')"
  shows "(\<exists>e. Open P i2caddr s = Some (Inl e, s') \<and> res = Inl e \<and> buf = idat)
       \<or> (\<exists>s1 n s2. Open P i2caddr s = Some (Inr (), s1) \<and> write_call P odat olen s1 = (n, s2) \<and>
             n \<noteq> olen \<and> Close P s2 = Some s' \<and> buf = idat \<and>
             res = Inl (I2CException (I2CException_ctor
                      ''I2CConnection::Xfer(odat, olen, idat, ilen, i2caddr)''
                      ''Write length error.'' (sys_time P (world s'))))) 
       \<or> (\<exists>s1 s2 k s3. Open P i2caddr s = Some (Inr (), s1) \<and> write_call P odat olen s1 = (olen, s2) \<and>
             read_call P idat ilen s2 = (k, buf, s3) \<and> Close P s3 = Some s' \<and>
             res = (if k \<noteq> ilen then Inl (I2CException (I2CException_ctor
                      ''I2CConnection::Xfer(odat, olen, idat, ilen, i2caddr)''
                      ''Read length error.'' (sys_time P (world s')))) else Inr ()))"
  using assms
  by (auto simp: Xfer_def split: option.splits sum.splits prod.splits if_splits)

lemma Xfer_log:
  assumes "Xfer P odat olen idat ilen i2caddr s = Some (res, buf, s')"
  obtains
    (open_failed) fd e where "fd = fst (sys_open P (busfile s) (world s))" "fd < 0"
      "res = Inl (I2CException e)" "file_desc s' = fd" "busfile s' = busfile s" "buf = idat"
      "calls s' = calls s @ [OpenCall (busfile s) fd]"
  | (not_found) fd io cs e where "fd = fst (sys_open P (busfile s) (world s))" "0 \<le> fd" "io < 0"
      "res = Inl (I2CNotFoundException e)" "file_desc s' = -1" "busfile s' = busfile s" "buf = idat"
      "cs \<noteq> []" "only_close fd cs"
      "calls s' = calls s @ [OpenCall (busfile s) fd, IoctlCall fd i2caddr io] @ cs"
  | (short_write) fd io n cs where "fd = fst (sys_open P (busfile s) (world s))" "0 \<le> fd" "0 \<le> io"
      "n \<noteq> olen" "file_desc s' = -1" "busfile s' = busfile s" "buf = idat"
      "cs \<noteq> []" "only_close fd cs"
      "calls s' = calls s @ [OpenCall (busfile s) fd, IoctlCall fd i2caddr io,
          WriteCall fd odat olen n] @ cs"
      "res = Inl (I2CException (I2CException_ctor
                ''I2CConnection::Xfer(odat, olen, idat, ilen, i2caddr)''
                ''Write length error.'' (sys_time P (world s'))))"
  | (transfer) fd io k cs where "fd = fst (sys_open P (busfile s) (world s))" "0 \<le> fd" "0 \<le> io"
      "file_desc s' = -1" "busfile s' = busfile s" "cs \<noteq> []" "only_close fd cs"
      "calls s' = calls s @ [OpenCall (busfile s) fd, IoctlCall fd i2caddr io,
          WriteCall fd odat olen olen, ReadCall fd ilen k] @ cs"
      "res = (if k \<noteq> ilen then Inl (I2CException (I2CException_ctor
                ''I2CConnection::Xfer(odat, olen, idat, ilen, i2caddr)''
                ''Read length error.'' (sys_time P (world s')))) else Inr ())"
proof -
  from Xfer_cases [OF assms] consider
    (a) e where "Open P i2caddr s = Some (Inl e, s')" "res = Inl e" "buf = idat"
  | (b) s1 n s2 where "Open P i2caddr s = Some (Inr (), s1)" "write_call P odat olen s1 = (n, s2)"
      "n \<noteq> olen" "Close P s2 = Some s'" "buf = idat"
      "res = Inl (I2CException (I2CException_ctor
                ''I2CConnection::Xfer(odat, olen, idat, ilen, i2caddr)''
                ''Write length error.'' (sys_time P (world s'))))"
  | (c) s1 s2 k s3 where "Open P i2caddr s = Some (Inr (), s1)"
      "write_call P odat olen s1 = (olen, s2)"
      "read_call P idat ilen s2 = (k, buf, s3)" "Close P s3 = Some s'"
      "res = (if k \<noteq> ilen then Inl (I2CException (I2CException_ctor
                ''I2CConnection::Xfer(odat, olen, idat, ilen, i2caddr)''
                ''Read length error.'' (sys_time P (world s')))) else Inr ())"
    by blast
  then show ?thesis
  proof cases
    case a
    from a(1) show ?thesis
    proof (cases rule: Open_log)
      case (open_failed fd e')
      with a that(1) show ?thesis by auto
    next
      case (not_found fd io cs e')
      with a that(2) show ?thesis by auto
    next
      case (bound fd io)
      with a show ?thesis by simp
    qed
  next
    case b
    note wp = write_call_props [OF b(2)]
    from b(1) show ?thesis
    proof (cases rule: Open_log)
      case (bound fd io)
      from Close_shape [OF b(4)] obtain cs where cs: "file_desc s' = -1" "busfile s' = busfile s2"
        "calls s' = calls s2 @ cs" "only_close (file_desc s2) cs" "file_desc s2 \<noteq> -1 \<longrightarrow> cs \<noteq> []"
        by blast
      show ?thesis
      proof (rule that(3) [of fd io n cs])
        show "cs \<noteq> []" using cs bound wp by auto
      qed (use cs bound wp b in auto)
    qed simp_all
  next
    case c
    note wp = write_call_props [OF c(2)]
    note rp = read_call_props [OF c(3)]
    from c(1) show ?thesis
    proof (cases rule: Open_log)
      case (bound fd io)
      from Close_shape [OF c(4)] obtain cs where cs: "file_desc s' = -1" "busfile s' = busfile s3"
        "calls s' = calls s3 @ cs" "only_close (file_desc s3) cs" "file_desc s3 \<noteq> -1 \<longrightarrow> cs \<noteq> []"
        by blast
      show ?thesis
      proof (rule that(4) [of fd io cs k])
        show "cs \<noteq> []" using cs bound wp rp by auto
      qed (use cs bound wp rp c(5) in auto)
    qed simp_all
  qed
qed

subsection \<open>When the functions return\<close>

text \<open>
  \<open>TEMP_FAILURE_RETRY\<close> ends as soon as a \<open>::close\<close> is not interrupted. If some measure
  of the world decreases with every interrupted \<open>::close\<close>, the loop, \<open>Close\<close> and every
  function built on it return.
\<close>

lemma retry_returns:
  assumes m: "\<And>fd w r e w'. sys_close P fd w = (r, e, w') \<Longrightarrow> r = -1 \<Longrightarrow> e = EINTR \<Longrightarrow> m w' < (m w :: nat)"
  shows "\<exists>s'. TEMP_FAILURE_RETRY_close P s = Some s'"
proof (induction "m (world s)" arbitrary: s rule: less_induct)
  case less
  obtain r s1 where cc: "close_call P s = (r, s1)" by (cases "close_call P s")
  obtain e w' where c: "sys_close P (file_desc s) (world s) = (r, e, w')"
    and w: "world s1 = w'" and e: "r < 0 \<longrightarrow> errno s1 = e"
    using cc by (auto simp: close_call_def split: prod.splits)
  show ?case
  proof (cases "r = -1 \<and> errno s1 = EINTR")
    case True
    with e have "r = -1" and "e = EINTR" by auto
    from m [OF c this] w have "m (world s1) < m (world s)" by simp
    from less [OF this] obtain s' where "TEMP_FAILURE_RETRY_close P s1 = Some s'" by blast
    with True cc show ?thesis
      by (subst TEMP_FAILURE_RETRY_close.simps) simp
  next
    case False
    with cc show ?thesis
      by (subst TEMP_FAILURE_RETRY_close.simps) auto
  qed
qed

lemma Close_returns:
  assumes m: "\<And>fd w r e w'. sys_close P fd w = (r, e, w') \<Longrightarrow> r = -1 \<Longrightarrow> e = EINTR \<Longrightarrow> m w' < (m w :: nat)"
  shows "\<exists>s'. Close P s = Some s'"
proof -
  obtain r s1 where cc: "close_call P (s\<lparr>errno := 0\<rparr>) = (r, s1)"
    by (cases "close_call P (s\<lparr>errno := 0\<rparr>)")
  have "\<exists>s2. TEMP_FAILURE_RETRY_close P s1 = Some s2"
    by (rule retry_returns [where m = m]) (fact m)
  then obtain s2 where "TEMP_FAILURE_RETRY_close P s1 = Some s2" by blast
  with cc show ?thesis by (simp add: Close_def Let_def)
qed

lemma Open_returns:
  assumes "\<And>t. \<exists>t'. Close P t = Some t'"
  shows "\<exists>r s'. Open P addr s = Some (r, s')"
proof -
  obtain io s2 where i: "ioctl_call P addr (open_call P s) = (io, s2)"
    by (cases "ioctl_call P addr (open_call P s)")
  from assms [of s2] obtain s3 where "Close P s2 = Some s3" by blast
  with i show ?thesis by (simp add: Open_def Let_def)
qed

lemma Read_returns:
  assumes "\<And>t. \<exists>t'. Close P t = Some t'"
  shows "\<exists>r buf s'. Read P data len addr s = Some (r, buf, s')"
proof -
  from Open_returns [OF assms] obtain r s1 where o: "Open P addr s = Some (r, s1)" by blast
  obtain n buf s2 where rc: "read_call P data len s1 = (n, buf, s2)"
    by (cases "read_call P data len s1")
  from assms [of s2] obtain s3 where "Close P s2 = Some s3" by blast
  with o rc show ?thesis by (cases r) (simp_all add: Read_def)
qed

lemma Write_returns:
  assumes "\<And>t. \<exists>t'. Close P t = Some t'"
  shows "\<exists>r s'. Write P data len addr s = Some (r, s')"
proof -
  from Open_returns [OF assms] obtain r s1 where o: "Open P addr s = Some (r, s1)" by blast
  obtain n s2 where wc: "write_call P data len s1 = (n, s2)"
    by (cases "write_call P data len s1")
  from assms [of s2] obtain s3 where "Close P s2 = Some s3" by blast
  with o wc show ?thesis by (cases r) (simp_all add: Write_def)
qed

lemma Write_string_returns:
  assumes "\<And>t. \<exists>t'. Close P t = Some t'"
  shows "\<exists>r s'. Write_string P dat addr s = Some (r, s')"
proof -
  from Open_returns [OF assms] obtain r s1 where o: "Open P addr s = Some (r, s1)" by blast
  obtain n s2 where wc: "write_call P (c_str dat) (int (length dat)) s1 = (n, s2)"
    by (cases "write_call P (c_str dat) (int (length dat)) s1")
  from assms [of s2] obtain s3 where "Close P s2 = Some s3" by blast
  with o wc show ?thesis by (cases r) (simp_all add: Write_string_def Let_def)
qed

lemma Xfer_returns:
  assumes "\<And>t. \<exists>t'. Close P t = Some t'"
  shows "\<exists>r buf s'. Xfer P odat olen idat ilen i2caddr s = Some (r, buf, s')"
proof -
  from Open_returns [OF assms] obtain r s1 where o: "Open P i2caddr s = Some (r, s1)" by blast
  obtain n s2 where wc: "write_call P odat olen s1 = (n, s2)"
    by (cases "write_call P odat olen s1")
  from assms [of s2] obtain s3 where c1: "Close P s2 = Some s3" by blast
  obtain k buf s4 where rc: "read_call P idat ilen s2 = (k, buf, s4)"
    by (cases "read_call P idat ilen s2")
  from assms [of s4] obtain s5 where c2: "Close P s4 = Some s5" by blast
  from o wc c1 rc c2 show ?thesis by (cases r) (simp_all add: Xfer_def)
qed

lemma demo_Close_returns: "\<exists>t'. Close (demo_platform fd io rc rb wc) t = Some t'"
  by (rule Close_returns [where m = length]) (auto simp: demo_platform_def split: list.splits)

subsection \<open>Runs determined by the answers of the platform\<close>

lemma close_call_interrupted:
  "close_call P s = (r, s1) \<Longrightarrow>
     (r = -1 \<and> errno s1 = EINTR) = interrupted P (file_desc s) (world s)"
  by (auto simp: close_call_def interrupted_def split: prod.splits)

lemma close_call_world:
  "close_call P s = (r, s1) \<Longrightarrow>
     world s1 = snd (snd (sys_close P (file_desc s) (world s))) \<and>
     r = fst (sys_close P (file_desc s) (world s))"
  by (auto simp: close_call_def split: prod.splits)

lemma interrupted_result: "interrupted P fd w \<Longrightarrow> fst (sys_close P fd w) = -1"
  by (auto simp: interrupted_def split: prod.splits)

lemma retry_run:
  assumes "\<forall>i<n. interrupted P (file_desc s) (close_world P (file_desc s) i (world s))"
    and "\<not> interrupted P (file_desc s) (close_world P (file_desc s) n (world s))"
  shows "\<exists>s'. TEMP_FAILURE_RETRY_close P s = Some s' \<and> file_desc s' = file_desc s \<and>
           busfile s' = busfile s \<and>
           world s' = close_world P (file_desc s) (Suc n) (world s) \<and>
           calls s' = calls s @ replicate n (CloseCall (file_desc s) (-1)) @
             [CloseCall (file_desc s)
                (fst (sys_close P (file_desc s) (close_world P (file_desc s) n (world s))))]"
  using assms
proof (induction n arbitrary: s)
  case 0
  obtain r s1 where c: "close_call P s = (r, s1)" by (cases "close_call P s")
  from 0 close_call_interrupted [OF c] have "\<not> (r = -1 \<and> errno s1 = EINTR)" by simp
  with c have "TEMP_FAILURE_RETRY_close P s = Some s1"
    by (subst TEMP_FAILURE_RETRY_close.simps) auto
  with close_call_props [OF c] close_call_world [OF c] show ?case by simp
next
  case (Suc n)
  obtain r s1 where c: "close_call P s = (r, s1)" by (cases "close_call P s")
  note cp = close_call_props [OF c] and cw = close_call_world [OF c]
  from Suc.prems(1) have i0: "interrupted P (file_desc s) (world s)" by force
  with close_call_interrupted [OF c] have go: "r = -1 \<and> errno s1 = EINTR" by simp
  have "\<forall>i<n. interrupted P (file_desc s1) (close_world P (file_desc s1) i (world s1))"
  proof (intro allI impI)
    fix i assume "i < n"
    then have "Suc i < Suc n" by simp
    with Suc.prems(1) have "interrupted P (file_desc s) (close_world P (file_desc s) (Suc i) (world s))"
      by blast
    with cp cw show "interrupted P (file_desc s1) (close_world P (file_desc s1) i (world s1))"
      by simp
  qed
  moreover from Suc.prems(2) cp cw
  have "\<not> interrupted P (file_desc s1) (close_world P (file_desc s1) n (world s1))" by simp
  ultimately obtain s' where s': "TEMP_FAILURE_RETRY_close P s1 = Some s'"
    "file_desc s' = file_desc s1" "busfile s' = busfile s1"
    "world s' = close_world P (file_desc s1) (Suc n) (world s1)"
    "calls s' = calls s1 @ replicate n (CloseCall (file_desc s1) (-1)) @
       [CloseCall (file_desc s1)
          (fst (sys_close P (file_desc s1) (close_world P (file_desc s1) n (world s1))))]"
    using Suc.IH [of s1] by blast
  from c go s'(1) have "TEMP_FAILURE_RETRY_close P s = Some s'"
    by (subst TEMP_FAILURE_RETRY_close.simps) simp
  with s' cp cw go show ?case by simp
qed

lemma retry_never_returns:
  assumes "\<forall>i. interrupted P (file_desc s) (close_world P (file_desc s) i (world s))"
  shows "TEMP_FAILURE_RETRY_close P s = None"
proof (rule ccontr)
  assume "TEMP_FAILURE_RETRY_close P s \<noteq> None"
  then obtain s' where r: "TEMP_FAILURE_RETRY_close P s = Some s'" by blast
  let ?Q = "\<lambda>(ps :: 'a platform \<times> 'a state) (t' :: 'a state).
      \<exists>i. \<not> interrupted (fst ps) (file_desc (snd ps))
             (close_world (fst ps) (file_desc (snd ps)) i (world (snd ps)))"
  have "?Q (P, s) s'"
  proof (rule TEMP_FAILURE_RETRY_close.raw_induct [where Pa = ?Q, OF _ r])
    fix retry and P :: "'a platform" and t t' :: "'a state"
    assume IH: "\<And>P t t'. retry P t = Some t' \<Longrightarrow> ?Q (P, t) t'"
      and eq: "(let (r, s1) = close_call P t
                in if r = -1 \<and> errno s1 = EINTR then retry P s1 else Some s1) = Some t'"
    obtain r s1 where c: "close_call P t = (r, s1)" by (cases "close_call P t")
    note cp = close_call_props [OF c] and cw = close_call_world [OF c]
    show "?Q (P, t) t'"
    proof (cases "r = -1 \<and> errno s1 = EINTR")
      case True
      with eq c have "retry P s1 = Some t'" by simp
      from IH [OF this] obtain i
        where "\<not> interrupted P (file_desc s1) (close_world P (file_desc s1) i (world s1))"
        by auto
      with cp cw have "\<not> interrupted P (file_desc t) (close_world P (file_desc t) (Suc i) (world t))"
        by simp
      then have "\<exists>j. \<not> interrupted P (file_desc t) (close_world P (file_desc t) j (world t))"
        by (rule exI)
      then show ?thesis by simp
    next
      case False
      with close_call_interrupted [OF c]
      have "\<not> interrupted P (file_desc t) (close_world P (file_desc t) 0 (world t))" by simp
      then have "\<exists>j. \<not> interrupted P (file_desc t) (close_world P (file_desc t) j (world t))"
        by (rule exI)
      then show ?thesis by simp
    qed
  qed
  with assms show False by simp
qed

lemma Close_run_plain:
  assumes "file_desc s \<noteq> -1" and "sys_close P (file_desc s) (world s) = (r, e, w)"
    and "\<not> (r < 0 \<and> e = EINTR)"
  shows "Close P s = Some (s\<lparr>file_desc := -1, errno := (if r < 0 then e else 0), world := w,
           calls := calls s @ [CloseCall (file_desc s) r]\<rparr>)"
  using assms by (auto simp: Close_def close_call_def Let_def)

lemma Close_run_interrupted:
  assumes "file_desc s \<noteq> -1" and "sys_close P (file_desc s) (world s) = (r1, EINTR, w1)"
    and "r1 < 0"
    and "\<forall>i<n. interrupted P (file_desc s) (close_world P (file_desc s) i w1)"
    and "\<not> interrupted P (file_desc s) (close_world P (file_desc s) n w1)"
  shows "\<exists>c. Close P s = Some c \<and> file_desc c = -1 \<and> busfile c = busfile s \<and>
           world c = close_world P (file_desc s) (Suc n) w1 \<and>
           new_calls s c = CloseCall (file_desc s) r1 # replicate n (CloseCall (file_desc s) (-1)) @
             [CloseCall (file_desc s)
                (fst (sys_close P (file_desc s) (close_world P (file_desc s) n w1)))]"
proof -
  let ?s1 = "s\<lparr>errno := EINTR, world := w1, calls := calls s @ [CloseCall (file_desc s) r1]\<rparr>"
  from assms(1-3) have c1: "close_call P (s\<lparr>errno := 0\<rparr>) = (r1, ?s1)"
    by (simp add: close_call_def)
  from assms(4,5) retry_run [of n P ?s1] obtain s' where
    s': "TEMP_FAILURE_RETRY_close P ?s1 = Some s'" "file_desc s' = file_desc s"
      "busfile s' = busfile s" "world s' = close_world P (file_desc s) (Suc n) w1"
      "calls s' = calls ?s1 @ replicate n (CloseCall (file_desc s) (-1)) @
         [CloseCall (file_desc s)
            (fst (sys_close P (file_desc s) (close_world P (file_desc s) n w1)))]"
    by auto
  from assms(1,3) c1 s'(1) have "Close P s = Some (s'\<lparr>file_desc := -1\<rparr>)"
    by (simp add: Close_def Let_def)
  with s' show ?thesis by (simp add: new_calls_def)
qed

lemma Close_run_never_returns:
  assumes "file_desc s \<noteq> -1" and "sys_close P (file_desc s) (world s) = (r1, EINTR, w1)"
    and "r1 < 0"
    and "\<forall>i. interrupted P (file_desc s) (close_world P (file_desc s) i w1)"
  shows "Close P s = None"
proof -
  let ?s1 = "s\<lparr>errno := EINTR, world := w1, calls := calls s @ [CloseCall (file_desc s) r1]\<rparr>"
  from assms(1-3) have c1: "close_call P (s\<lparr>errno := 0\<rparr>) = (r1, ?s1)"
    by (simp add: close_call_def)
  from assms(4) retry_never_returns [of P ?s1] have "TEMP_FAILURE_RETRY_close P ?s1 = None"
    by simp
  with assms(1,3) c1 show ?thesis by (simp add: Close_def Let_def)
qed


lemma closes_after:
  assumes "Close P t = Some s'" and "file_desc t = fd" and "0 \<le> fd"
    and "calls t = calls s @ pre"
  shows "file_desc s' = -1 \<and>
         (\<exists>cs. new_calls s s' = pre @ cs \<and> cs \<noteq> [] \<and> only_close fd cs)"
  using Close_shape [OF assms(1)] assms(2-4) by (auto simp: new_calls_def)

lemma Open_failure_session:
  assumes ret: "Open P addr s = Some (Inl e, s')"
    and o: "sys_open P (busfile s) (world s) = (fd, w0)"
    and i: "sys_ioctl P fd addr w0 = (io, w1)"
  shows "(fd < 0 \<or> io < 0) \<and>
         (fd < 0 \<longrightarrow>
            e = I2CException (I2CException_ctor ''I2CBus::Open(addr)''
                  (''Unable to open I2C Bus file '' @ busfile s) (sys_time P w0)) \<and>
            file_desc s' = fd \<and> world s' = w0 \<and> new_calls s s' = [OpenCall (busfile s) fd]) \<and>
         (0 \<le> fd \<longrightarrow>
            e = I2CNotFoundException (I2CException_ctor ''I2CBus::Open(addr)''
                  (''Unable to find device address 0x'' @ hex2 addr) (sys_time P (world s'))) \<and>
            file_desc s' = -1 \<and>
            (\<exists>cs. new_calls s s' = [OpenCall (busfile s) fd, IoctlCall fd addr io] @ cs \<and>
                  cs \<noteq> [] \<and> only_close fd cs))"
proof (cases "fd < 0")
  case True
  with ret o show ?thesis
    by (auto simp: Open_def open_call_def Let_def new_calls_def)
next
  case False
  let ?s2 = "s\<lparr>file_desc := fd, world := w1,
                calls := calls s @ [OpenCall (busfile s) fd, IoctlCall fd addr io]\<rparr>"
  from ret o i False have io: "io < 0" and c: "Close P ?s2 = Some s'"
    and e: "e = I2CNotFoundException (I2CException_ctor ''I2CBus::Open(addr)''
                  (''Unable to find device address 0x'' @ hex2 addr) (sys_time P (world s')))"
    by (auto simp: Open_def open_call_def ioctl_call_def Let_def split: option.splits if_splits)
  from closes_after [OF c, of fd s "[OpenCall (busfile s) fd, IoctlCall fd addr io]"] False io e
  show ?thesis by simp
qed

lemma Open_success_session:
  assumes ret: "Open P addr s = Some (Inr (), s1)"
    and o: "sys_open P (busfile s) (world s) = (fd, w0)"
    and i: "sys_ioctl P fd addr w0 = (io, w1)"
  shows "0 \<le> fd \<and> 0 \<le> io \<and>
         s1 = s\<lparr>file_desc := fd, world := w1,
                calls := calls s @ [OpenCall (busfile s) fd, IoctlCall fd addr io]\<rparr>"
  using assms
  by (auto simp: Open_def open_call_def ioctl_call_def Let_def split: option.splits if_splits)

lemma Read_session:
  assumes ret: "Read P data len addr s = Some (res, buf, s')"
    and o: "sys_open P (busfile s) (world s) = (fd, w0)"
    and i: "sys_ioctl P fd addr w0 = (io, w1)"
    and r: "sys_read P fd data len w1 = (n, pbuf, w2)"
  shows "(fd < 0 \<longrightarrow>
           res = Inl (I2CException (I2CException_ctor ''I2CBus::Open(addr)''
                   (''Unable to open I2C Bus file '' @ busfile s) (sys_time P w0))) \<and>
           buf = data \<and> file_desc s' = fd \<and> world s' = w0 \<and>
           new_calls s s' = [OpenCall (busfile s) fd]) \<and>
         (0 \<le> fd \<and> io < 0 \<longrightarrow>
           res = Inl (I2CNotFoundException (I2CException_ctor ''I2CBus::Open(addr)''
                   (''Unable to find device address 0x'' @ hex2 addr) (sys_time P (world s')))) \<and>
           buf = data \<and> file_desc s' = -1 \<and>
           (\<exists>cs. new_calls s s' = [OpenCall (busfile s) fd, IoctlCall fd addr io] @ cs \<and>
                 cs \<noteq> [] \<and> only_close fd cs)) \<and>
         (0 \<le> fd \<and> 0 \<le> io \<longrightarrow>
           res = (if n \<noteq> len then Inl (I2CException (I2CException_ctor
                    ''I2CBus::Read(data, len, addr)'' ''Read length error.''
                    (sys_time P (world s')))) else Inr ()) \<and>
           buf = pbuf \<and> file_desc s' = -1 \<and>
           (\<exists>cs. new_calls s s' = [OpenCall (busfile s) fd, IoctlCall fd addr io,
                                   ReadCall fd len n] @ cs \<and>
                 cs \<noteq> [] \<and> only_close fd cs))"
proof -
  from Read_cases [OF ret] consider
    (a) e where "Open P addr s = Some (Inl e, s')" "res = Inl e" "buf = data"
  | (b) s1 m s2 where "Open P addr s = Some (Inr (), s1)" "read_call P data len s1 = (m, buf, s2)"
      "Close P s2 = Some s'"
      "res = (if m \<noteq> len then Inl (I2CException (I2CException_ctor
                ''I2CBus::Read(data, len, addr)'' ''Read length error.''
                (sys_time P (world s')))) else Inr ())"
    by blast
  then show ?thesis
  proof cases
    case a
    from Open_failure_session [OF a(1) o i] a(2,3) show ?thesis by auto
  next
    case b
    from Open_success_session [OF b(1) o i] have ok: "0 \<le> fd" "0 \<le> io"
      and s1: "s1 = s\<lparr>file_desc := fd, world := w1,
        calls := calls s @ [OpenCall (busfile s) fd, IoctlCall fd addr io]\<rparr>" by simp_all
    from b(2) r s1 have m: "m = n" "buf = pbuf"
      and s2: "file_desc s2 = fd"
        "calls s2 = calls s @ [OpenCall (busfile s) fd, IoctlCall fd addr io, ReadCall fd len n]"
      by (auto simp: read_call_def)
    from closes_after [OF b(3) s2(1) ok(1) s2(2)] ok m b(4) show ?thesis by auto
  qed
qed

lemma Write_session:
  assumes ret: "Write P data len addr s = Some (res, s')"
    and o: "sys_open P (busfile s) (world s) = (fd, w0)"
    and i: "sys_ioctl P fd addr w0 = (io, w1)"
    and w: "sys_write P fd data len w1 = (n, w2)"
  shows "(fd < 0 \<longrightarrow>
           res = Inl (I2CException (I2CException_ctor ''I2CBus::Open(addr)''
                   (''Unable to open I2C Bus file '' @ busfile s) (sys_time P w0))) \<and>
           file_desc s' = fd \<and> world s' = w0 \<and>
           new_calls s s' = [OpenCall (busfile s) fd]) \<and>
         (0 \<le> fd \<and> io < 0 \<longrightarrow>
           res = Inl (I2CNotFoundException (I2CException_ctor ''I2CBus::Open(addr)''
                   (''Unable to find device address 0x'' @ hex2 addr) (sys_time P (world s')))) \<and>
           file_desc s' = -1 \<and>
           (\<exists>cs. new_calls s s' = [OpenCall (busfile s) fd, IoctlCall fd addr io] @ cs \<and>
                 cs \<noteq> [] \<and> only_close fd cs)) \<and>
         (0 \<le> fd \<and> 0 \<le> io \<longrightarrow>
           res = (if n \<noteq> len then Inl (I2CException (I2CException_ctor
                    ''I2CBus::Write(data, len, addr)'' ''Write length error.''
                    (sys_time P (world s')))) else Inr ()) \<and>
           file_desc s' = -1 \<and>
           (\<exists>cs. new_calls s s' = [OpenCall (busfile s) fd, IoctlCall fd addr io,
                                   WriteCall fd data len n] @ cs \<and>
                 cs \<noteq> [] \<and> only_close fd cs))"
proof -
  from Write_cases [OF ret] consider
    (a) e where "Open P addr s = Some (Inl e, s')" "res = Inl e"
  | (b) s1 m s2 where "Open P addr s = Some (Inr (), s1)" "write_call P data len s1 = (m, s2)"
      "Close P s2 = Some s'"
      "res = (if m \<noteq> len then Inl (I2CException (I2CException_ctor
                ''I2CBus::Write(data, len, addr)'' ''Write length error.''
                (sys_time P (world s')))) else Inr ())"
    by blast
  then show ?thesis
  proof cases
    case a
    from Open_failure_session [OF a(1) o i] a(2) show ?thesis by auto
  next
    case b
    from Open_success_session [OF b(1) o i] have ok: "0 \<le> fd" "0 \<le> io"
      and s1: "s1 = s\<lparr>file_desc := fd, world := w1,
        calls := calls s @ [OpenCall (busfile s) fd, IoctlCall fd addr io]\<rparr>" by simp_all
    from b(2) w s1 have m: "m = n"
      and s2: "file_desc s2 = fd"
        "calls s2 = calls s @ [OpenCall (busfile s) fd, IoctlCall fd addr io,
                               WriteCall fd data len n]"
      by (auto simp: write_call_def)
    from closes_after [OF b(3) s2(1) ok(1) s2(2)] ok m b(4) show ?thesis by auto
  qed
qed

lemma Write_string_session:
  assumes ret: "Write_string P dat addr s = Some (res, s')"
    and o: "sys_open P (busfile s) (world s) = (fd, w0)"
    and i: "sys_ioctl P fd addr w0 = (io, w1)"
    and w: "sys_write P fd (c_str dat) (int (length dat)) w1 = (n, w2)"
  shows "(fd < 0 \<longrightarrow>
           res = Inl (I2CException (I2CException_ctor ''I2CBus::Open(addr)''
                   (''Unable to open I2C Bus file '' @ busfile s) (sys_time P w0))) \<and>
           file_desc s' = fd \<and> world s' = w0 \<and>
           new_calls s s' = [OpenCall (busfile s) fd]) \<and>
         (0 \<le> fd \<and> io < 0 \<longrightarrow>
           res = Inl (I2CNotFoundException (I2CException_ctor ''I2CBus::Open(addr)''
                   (''Unable to find device address 0x'' @ hex2 addr) (sys_time P (world s')))) \<and>
           file_desc s' = -1 \<and>
           (\<exists>cs. new_calls s s' = [OpenCall (busfile s) fd, IoctlCall fd addr io] @ cs \<and>
                 cs \<noteq> [] \<and> only_close fd cs)) \<and>
         (0 \<le> fd \<and> 0 \<le> io \<longrightarrow>
           res = (if n \<noteq> int (length dat) then Inl (I2CException (I2CException_ctor
                    ''I2CBus::Write(dat, addr)'' ''Write length error.''
                    (sys_time P (world s')))) else Inr ()) \<and>
           file_desc s' = -1 \<and>
           (\<exists>cs. new_calls s s' = [OpenCall (busfile s) fd, IoctlCall fd addr io,
                                   WriteCall fd (c_str dat) (int (length dat)) n] @ cs \<and>
                 cs \<noteq> [] \<and> only_close fd cs))"
proof -
  from Write_string_cases [OF ret] consider
    (a) e where "Open P addr s = Some (Inl e, s')" "res = Inl e"
  | (b) s1 m s2 where "Open P addr s = Some (Inr (), s1)"
      "write_call P (c_str dat) (int (length dat)) s1 = (m, s2)"
      "Close P s2 = Some s'"
      "res = (if m \<noteq> int (length dat) then Inl (I2CException (I2CException_ctor
                ''I2CBus::Write(dat, addr)'' ''Write length error.''
                (sys_time P (world s')))) else Inr ())"
    by blast
  then show ?thesis
  proof cases
    case a
    from Open_failure_session [OF a(1) o i] a(2) show ?thesis by auto
  next
    case b
    from Open_success_session [OF b(1) o i] have ok: "0 \<le> fd" "0 \<le> io"
      and s1: "s1 = s\<lparr>file_desc := fd, world := w1,
        calls := calls s @ [OpenCall (busfile s) fd, IoctlCall fd addr io]\<rparr>" by simp_all
    from b(2) w s1 have m: "m = n"
      and s2: "file_desc s2 = fd"
        "calls s2 = calls s @ [OpenCall (busfile s) fd, IoctlCall fd addr io,
                               WriteCall fd (c_str dat) (int (length dat)) n]"
      by (auto simp: write_call_def)
    from closes_after [OF b(3) s2(1) ok(1) s2(2)] ok m b(4) show ?thesis by auto
  qed
qed

lemma Xfer_session:
  assumes ret: "Xfer P odat olen idat ilen addr s = Some (res, buf, s')"
    and o: "sys_open P (busfile s) (world s) = (fd, w0)"
    and i: "sys_ioctl P fd addr w0 = (io, w1)"
    and w: "sys_write P fd odat olen w1 = (n, w2)"
    and r: "sys_read P fd idat ilen w2 = (k, pbuf, w3)"
  shows "(fd < 0 \<longrightarrow>
           res = Inl (I2CException (I2CException_ctor ''I2CBus::Open(addr)''
                   (''Unable to open I2C Bus file '' @ busfile s) (sys_time P w0))) \<and>
           buf = idat \<and> file_desc s' = fd \<and> world s' = w0 \<and>
           new_calls s s' = [OpenCall (busfile s) fd]) \<and>
         (0 \<le> fd \<and> io < 0 \<longrightarrow>
           res = Inl (I2CNotFoundException (I2CException_ctor ''I2CBus::Open(addr)''
                   (''Unable to find device address 0x'' @ hex2 addr) (sys_time P (world s')))) \<and>
           buf = idat \<and> file_desc s' = -1 \<and>
           (\<exists>cs. new_calls s s' = [OpenCall (busfile s) fd, IoctlCall fd addr io] @ cs \<and>
                 cs \<noteq> [] \<and> only_close fd cs)) \<and>
         (0 \<le> fd \<and> 0 \<le> io \<and> n \<noteq> olen \<longrightarrow>
           res = Inl (I2CException (I2CException_ctor
                    ''I2CConnection::Xfer(odat, olen, idat, ilen, i2caddr)''
                    ''Write length error.'' (sys_time P (world s')))) \<and>
           buf = idat \<and> file_desc s' = -1 \<and>
           (\<exists>cs. new_calls s s' = [OpenCall (busfile s) fd, IoctlCall fd addr io,
                                   WriteCall fd odat olen n] @ cs \<and>
                 cs \<noteq> [] \<and> only_close fd cs)) \<and>
         (0 \<le> fd \<and> 0 \<le> io \<and> n = olen \<longrightarrow>
           res = (if k \<noteq> ilen then Inl (I2CException (I2CException_ctor
                    ''I2CConnection::Xfer(odat, olen, idat, ilen, i2caddr)''
                    ''Read length error.'' (sys_time P (world s')))) else Inr ()) \<and>
           buf = pbuf \<and> file_desc s' = -1 \<and>
           (\<exists>cs. new_calls s s' = [OpenCall (busfile s) fd, IoctlCall fd addr io,
                                   WriteCall fd odat olen olen, ReadCall fd ilen k] @ cs \<and>
                 cs \<noteq> [] \<and> only_close fd cs))"
proof -
  from Xfer_cases [OF ret] consider
    (a) e where "Open P addr s = Some (Inl e, s')" "res = Inl e" "buf = idat"
  | (b) s1 m s2 where "Open P addr s = Some (Inr (), s1)" "write_call P odat olen s1 = (m, s2)"
      "m \<noteq> olen" "Close P s2 = Some s'" "buf = idat"
      "res = Inl (I2CException (I2CException_ctor
                ''I2CConnection::Xfer(odat, olen, idat, ilen, i2caddr)''
                ''Write length error.'' (sys_time P (world s'))))"
  | (c) s1 s2 j s3 where "Open P addr s = Some (Inr (), s1)"
      "write_call P odat olen s1 = (olen, s2)"
      "read_call P idat ilen s2 = (j, buf, s3)" "Close P s3 = Some s'"
      "res = (if j \<noteq> ilen then Inl (I2CException (I2CException_ctor
                ''I2CConnection::Xfer(odat, olen, idat, ilen, i2caddr)''
                ''Read length error.'' (sys_time P (world s')))) else Inr ())"
    by blast
  then show ?thesis
  proof cases
    case a
    from Open_failure_session [OF a(1) o i] a(2,3) show ?thesis by auto
  next
    case b
    from Open_success_session [OF b(1) o i] have ok: "0 \<le> fd" "0 \<le> io"
      and s1: "s1 = s\<lparr>file_desc := fd, world := w1,
        calls := calls s @ [OpenCall (busfile s) fd, IoctlCall fd addr io]\<rparr>" by simp_all
    from b(2) w s1 have m: "m = n"
      and s2: "file_desc s2 = fd"
        "calls s2 = calls s @ [OpenCall (busfile s) fd, IoctlCall fd addr io,
                               WriteCall fd odat olen n]"
      by (auto simp: write_call_def)
    from closes_after [OF b(4) s2(1) ok(1) s2(2)] ok m b(3,5,6) show ?thesis by auto
  next
    case c
    from Open_success_session [OF c(1) o i] have ok: "0 \<le> fd" "0 \<le> io"
      and s1: "s1 = s\<lparr>file_desc := fd, world := w1,
        calls := calls s @ [OpenCall (busfile s) fd, IoctlCall fd addr io]\<rparr>" by simp_all
    from c(2) w s1 have m: "n = olen"
      and s2: "file_desc s2 = fd" "world s2 = w2"
        "calls s2 = calls s @ [OpenCall (busfile s) fd, IoctlCall fd addr io,
                               WriteCall fd odat olen olen]"
      by (auto simp: write_call_def)
    from c(3) r s2 have j: "j = k" "buf = pbuf"
      and s3: "file_desc s3 = fd"
        "calls s3 = calls s @ [OpenCall (busfile s) fd, IoctlCall fd addr io,
                               WriteCall fd odat olen olen, ReadCall fd ilen k]"
      by (auto simp: read_call_def)
    from closes_after [OF c(4) s3(1) ok(1) s3(2)] ok m j c(5) show ?thesis by auto
  qed
qed

subsection \<open>Lengths are checked\<close>





subsection \<open>A failed binding step\<close>

lemma not_found_log_iff:
  "not_found_log path addr cs =
     (\<exists>fd io ds. cs = [OpenCall path fd, IoctlCall fd addr io] @ ds \<and> 0 \<le> fd \<and> io < 0 \<and>
        ds \<noteq> [] \<and> only_close fd ds)"
  by (cases "(path, addr, cs)" rule: not_found_log.cases) auto










subsection \<open>The handle is closed afterwards\<close>

lemma Read_closed:
  assumes "Read P data len addr s = Some (res, buf, s')"
    and "-1 \<le> fst (sys_open P (busfile s) (world s))"
  shows "file_desc s' = -1"
  using assms(1)
proof (cases rule: Read_log)
  case (open_failed fd e)
  with assms(2) show ?thesis by simp
qed simp_all

lemma Write_closed:
  assumes "Write P data len addr s = Some (res, s')"
    and "-1 \<le> fst (sys_open P (busfile s) (world s))"
  shows "file_desc s' = -1"
  using assms(1)
proof (cases rule: Write_log)
  case (open_failed fd e)
  with assms(2) show ?thesis by simp
qed simp_all

lemma Write_string_closed:
  assumes "Write_string P dat addr s = Some (res, s')"
    and "-1 \<le> fst (sys_open P (busfile s) (world s))"
  shows "file_desc s' = -1"
  using assms(1)
proof (cases rule: Write_string_log)
  case (open_failed fd e)
  with assms(2) show ?thesis by simp
qed simp_all

lemma Xfer_closed:
  assumes "Xfer P odat olen idat ilen addr s = Some (res, buf, s')"
    and "-1 \<le> fst (sys_open P (busfile s) (world s))"
  shows "file_desc s' = -1"
  using assms(1)
proof (cases rule: Xfer_log)
  case (open_failed fd e)
  with assms(2) show ?thesis by simp
qed simp_all

lemma Close_twice:
  assumes "Close P s = Some c"
  shows "file_desc c = -1 \<and> Close P c = Some (c\<lparr>errno := 0\<rparr>)"
  using Close_shape [OF assms] by (simp add: Close_closed)

lemma session_released_closes:
  assumes "only_close fd cs" and "cs \<noteq> []" and "\<not> list_ex is_open pre"
  shows "session_released path fd (OpenCall path fd # pre @ cs)"
proof -
  from only_close_last [OF assms(1,2)] obtain r where "last cs = CloseCall fd r" by blast
  with assms only_close_filters(1) [OF assms(1)] show ?thesis
    by (simp add: session_released_def list_ex_iff filter_empty_conv)
qed

lemma Read_ends_closed:
  assumes "Read P data len addr s = Some (res, buf, s')"
  shows "ends_closed P s s'"
  using assms
proof (cases rule: Read_log)
  case (open_failed fd e)
  then show ?thesis by (simp add: ends_closed_def new_calls_append)
next
  case (not_found fd io cs e)
  with session_released_closes [of fd cs "[IoctlCall fd addr io]" "busfile s"]
  show ?thesis by (simp add: ends_closed_def new_calls_append)
next
  case (transfer fd io n cs)
  with session_released_closes [of fd cs "[IoctlCall fd addr io, ReadCall fd len n]" "busfile s"]
  show ?thesis by (simp add: ends_closed_def new_calls_append)
qed

lemma Write_ends_closed:
  assumes "Write P data len addr s = Some (res, s')"
  shows "ends_closed P s s'"
  using assms
proof (cases rule: Write_log)
  case (open_failed fd e)
  then show ?thesis by (simp add: ends_closed_def new_calls_append)
next
  case (not_found fd io cs e)
  with session_released_closes [of fd cs "[IoctlCall fd addr io]" "busfile s"]
  show ?thesis by (simp add: ends_closed_def new_calls_append)
next
  case (transfer fd io n cs)
  with session_released_closes [of fd cs "[IoctlCall fd addr io, WriteCall fd data len n]" "busfile s"]
  show ?thesis by (simp add: ends_closed_def new_calls_append)
qed

lemma Write_string_ends_closed:
  assumes "Write_string P dat addr s = Some (res, s')"
  shows "ends_closed P s s'"
  using assms
proof (cases rule: Write_string_log)
  case (open_failed fd e)
  then show ?thesis by (simp add: ends_closed_def new_calls_append)
next
  case (not_found fd io cs e)
  with session_released_closes [of fd cs "[IoctlCall fd addr io]" "busfile s"]
  show ?thesis by (simp add: ends_closed_def new_calls_append)
next
  case (transfer fd io n cs)
  with session_released_closes [of fd cs
      "[IoctlCall fd addr io, WriteCall fd (c_str dat) (int (length dat)) n]" "busfile s"]
  show ?thesis by (simp add: ends_closed_def new_calls_append)
qed

lemma Xfer_ends_closed:
  assumes "Xfer P odat olen idat ilen addr s = Some (res, buf, s')"
  shows "ends_closed P s s'"
  using assms
proof (cases rule: Xfer_log)
  case (open_failed fd e)
  then show ?thesis by (simp add: ends_closed_def new_calls_append)
next
  case (not_found fd io cs e)
  with session_released_closes [of fd cs "[IoctlCall fd addr io]" "busfile s"]
  show ?thesis by (simp add: ends_closed_def new_calls_append)
next
  case (short_write fd io n cs)
  with session_released_closes [of fd cs "[IoctlCall fd addr io, WriteCall fd odat olen n]" "busfile s"]
  show ?thesis by (simp add: ends_closed_def new_calls_append)
next
  case (transfer fd io k cs)
  with session_released_closes [of fd cs
      "[IoctlCall fd addr io, WriteCall fd odat olen olen, ReadCall fd ilen k]" "busfile s"]
  show ?thesis by (simp add: ends_closed_def new_calls_append)
qed

lemma ends_closed_sentinel:
  "ends_closed P s s' \<Longrightarrow> -1 \<le> fst (sys_open P (busfile s) (world s)) \<Longrightarrow> file_desc s' = -1"
  by (auto simp: ends_closed_def Let_def split: if_splits)

lemma Close_first_call:
  assumes "file_desc s \<noteq> -1" and "Close P s = Some c"
  shows "file_desc c = -1 \<and> only_close (file_desc s) (new_calls s c) \<and>
         new_calls s c \<noteq> [] \<and>
         hd (new_calls s c) = CloseCall (file_desc s) (fst (sys_close P (file_desc s) (world s)))"
proof -
  obtain r s1 where c1: "close_call P (s\<lparr>errno := 0\<rparr>) = (r, s1)"
    by (cases "close_call P (s\<lparr>errno := 0\<rparr>)")
  from close_call_props [OF c1] close_call_world [OF c1]
  have s1: "calls s1 = calls s @ [CloseCall (file_desc s) (fst (sys_close P (file_desc s) (world s)))]"
    "file_desc s1 = file_desc s"
    by simp_all
  have "\<exists>cs. calls c = calls s1 @ cs"
  proof (cases "r < 0 \<and> errno s1 = EINTR")
    case True
    with assms c1 obtain s2 where t: "TEMP_FAILURE_RETRY_close P s1 = Some s2"
      and c: "c = s2\<lparr>file_desc := -1\<rparr>"
      by (auto simp: Close_def Let_def split: option.splits)
    from retry_shape [OF t] c show ?thesis by auto
  next
    case False
    with assms c1 have "c = s1\<lparr>file_desc := -1\<rparr>"
      by (auto simp: Close_def Let_def split: if_splits)
    then show ?thesis by simp
  qed
  then obtain cs where "calls c = calls s1 @ cs" by blast
  with s1 have "hd (new_calls s c) =
      CloseCall (file_desc s) (fst (sys_close P (file_desc s) (world s)))"
    by (simp add: new_calls_def)
  with Close_shape [OF assms(2)] assms(1) show ?thesis
    by (auto simp: new_calls_append)
qed

text \<open>
  C3. \<open>Close\<close> on a bus whose descriptor is \<open>-1\<close> returns at once: it sets \<open>errno\<close> to
  zero and changes nothing else, so the members of the bus and the world are as before
  and no system call is made. After any \<open>Close\<close> the descriptor is \<open>-1\<close>, and a second
  \<open>Close\<close> is such a call. A \<open>Close\<close> on an open descriptor that returns has called
  \<open>::close\<close> on that descriptor first and has made no other system call; when that
  \<open>::close\<close> is not interrupted, \<open>Close\<close> returns after that one call, in the world that
  \<open>::close\<close> has left. Every \<open>Read\<close>, \<open>Write\<close> and \<open>Xfer\<close> that returns, with or without a
  failure, ends closed: if \<open>::open\<close> gave a descriptor, the log of the call starts with
  that \<open>::open\<close>, has no other, and ends with a \<open>::close\<close> of that descriptor, and the
  member is \<open>-1\<close>; if \<open>::open\<close> failed, it is the only call and the member holds its
  result, which POSIX fixes to \<open>-1\<close>. The functions return on a platform on which
  \<open>Close\<close> returns.
\<close>

theorem Close_idempotent_and_sessions_end_closed:
  "(file_desc s = -1 \<longrightarrow>
      (\<exists>c. Close P s = Some c \<and> c = s\<lparr>errno := 0\<rparr> \<and> new_calls s c = [] \<and>
           world c = world s \<and> file_desc c = -1)) \<and>
   (Close P s = Some c' \<longrightarrow> file_desc c' = -1 \<and> Close P c' = Some (c'\<lparr>errno := 0\<rparr>)) \<and>
   (file_desc s \<noteq> -1 \<and> Close P s = Some c' \<longrightarrow>
      only_close (file_desc s) (new_calls s c') \<and> new_calls s c' \<noteq> [] \<and>
      hd (new_calls s c') = CloseCall (file_desc s) (fst (sys_close P (file_desc s) (world s)))) \<and>
   (file_desc s \<noteq> -1 \<and> sys_close P (file_desc s) (world s) = (r, e, w) \<and>
    \<not> (r < 0 \<and> e = EINTR) \<longrightarrow>
      Close P s = Some (s\<lparr>file_desc := -1, errno := (if r < 0 then e else 0), world := w,
        calls := calls s @ [CloseCall (file_desc s) r]\<rparr>)) \<and>
   (Read P data len addr t = Some (r1, buf1, t1) \<longrightarrow> ends_closed P t t1) \<and>
   (Write P data len addr t = Some (r2, t2) \<longrightarrow> ends_closed P t t2) \<and>
   (Write_string P dat addr t = Some (r3, t3) \<longrightarrow> ends_closed P t t3) \<and>
   (Xfer P odat olen idat ilen addr t = Some (r4, buf4, t4) \<longrightarrow> ends_closed P t t4) \<and>
   (-1 \<le> fst (sys_open P (busfile t) (world t)) \<longrightarrow>
      (Read P data len addr t = Some (r1, buf1, t1) \<longrightarrow> file_desc t1 = -1) \<and>
      (Write P data len addr t = Some (r2, t2) \<longrightarrow> file_desc t2 = -1) \<and>
      (Write_string P dat addr t = Some (r3, t3) \<longrightarrow> file_desc t3 = -1) \<and>
      (Xfer P odat olen idat ilen addr t = Some (r4, buf4, t4) \<longrightarrow> file_desc t4 = -1)) \<and>
   ((\<forall>u. \<exists>u'. Close P u = Some u') \<longrightarrow>
      (\<exists>x b u. Read P data len addr t = Some (x, b, u)) \<and>
      (\<exists>x u. Write P data len addr t = Some (x, u)) \<and>
      (\<exists>x u. Write_string P dat addr t = Some (x, u)) \<and>
      (\<exists>x b u. Xfer P odat olen idat ilen addr t = Some (x, b, u)))"
proof -
  have "new_calls s (s\<lparr>errno := 0\<rparr>) = []" by (simp add: new_calls_def)
  with Close_closed [of s P] Close_twice [of P s c'] Close_first_call [of s P c']
    Close_run_plain [of s P r e w]
    Read_ends_closed [of P data len addr t r1 buf1 t1] Write_ends_closed [of P data len addr t r2 t2]
    Write_string_ends_closed [of P dat addr t r3 t3]
    Xfer_ends_closed [of P odat olen idat ilen addr t r4 buf4 t4]
    Read_closed [of P data len addr t r1 buf1 t1] Write_closed [of P data len addr t r2 t2]
    Write_string_closed [of P dat addr t r3 t3]
    Xfer_closed [of P odat olen idat ilen addr t r4 buf4 t4]
    Read_returns [of P data len addr t] Write_returns [of P data len addr t]
    Write_string_returns [of P dat addr t] Xfer_returns [of P odat olen idat ilen addr t]
  show ?thesis by simp
qed


theorem Close_idempotent_and_sessions_end_closed_witness:
  "(let P = demo_platform 3 0 2 [0xAA, 0xBB] 2;
        s = I2CBus_ctor ''/dev/i2c-1'' [(-1, 4)];
        c = \<lparr>busfile = ''/dev/i2c-1'', file_desc = -1, errno = 0, world = [(-1, 4)], calls = []\<rparr>;
        t1 = \<lparr>busfile = ''/dev/i2c-1'', file_desc = -1, errno = 4, world = [],
               calls = [OpenCall ''/dev/i2c-1'' 3, IoctlCall 3 0x50 0, ReadCall 3 2 2,
                        CloseCall 3 (-1), CloseCall 3 0]\<rparr>;
        t2 = \<lparr>busfile = ''/dev/i2c-1'', file_desc = -1, errno = 4, world = [],
               calls = [OpenCall ''/dev/i2c-1'' 3, IoctlCall 3 0x50 0, WriteCall 3 [0, 0] 2 2,
                        CloseCall 3 (-1), CloseCall 3 0]\<rparr>;
        t3 = \<lparr>busfile = ''/dev/i2c-1'', file_desc = -1, errno = 4, world = [],
               calls = [OpenCall ''/dev/i2c-1'' 3, IoctlCall 3 0x50 0,
                        WriteCall 3 [97, 98, 0] 2 2, CloseCall 3 (-1), CloseCall 3 0]\<rparr>;
        r4 = Inl (I2CException \<lparr>message = ''I2CConnection::Xfer(odat, olen, idat, ilen, i2caddr)'',
               procname = ''Write length error.'', timeof_exc = 1536000000\<rparr>);
        t4 = \<lparr>busfile = ''/dev/i2c-1'', file_desc = -1, errno = 4, world = [],
               calls = [OpenCall ''/dev/i2c-1'' 3, IoctlCall 3 0x50 0, WriteCall 3 [0] 1 2,
                        CloseCall 3 (-1), CloseCall 3 0]\<rparr>
    in file_desc s = -1 \<and> Close P s = Some c \<and> Close P c = Some c \<and>
       -1 \<le> fst (sys_open P (busfile s) (world s)) \<and>
       Read P [0, 0] 2 0x50 s = Some (Inr (), [0xAA, 0xBB], t1) \<and> ends_closed P s t1 \<and>
       Write P [0, 0] 2 0x50 s = Some (Inr (), t2) \<and> ends_closed P s t2 \<and>
       Write_string P ''ab'' 0x50 s = Some (Inr (), t3) \<and> ends_closed P s t3 \<and>
       Xfer P [0] 1 [0, 0] 2 0x50 s = Some (r4, [0, 0], t4) \<and> ends_closed P s t4 \<and>
       (\<forall>u. \<exists>u'. Close P u = Some u')) \<and>
   (let P = demo_platform 3 (-1) 0 [] 0;
        s = \<lparr>busfile = ''/dev/i2c-1'', file_desc = 3, errno = 0, world = [(-1, 9)], calls = []\<rparr>;
        t = I2CBus_ctor ''/dev/i2c-1'' [];
        nf = Inl (I2CNotFoundException \<lparr>message = ''I2CBus::Open(addr)'',
               procname = ''Unable to find device address 0x77'', timeof_exc = 1536000000\<rparr>);
        t' = \<lparr>busfile = ''/dev/i2c-1'', file_desc = -1, errno = 0, world = [],
               calls = [OpenCall ''/dev/i2c-1'' 3, IoctlCall 3 0x77 (-1), CloseCall 3 0]\<rparr>
    in file_desc s \<noteq> -1 \<and> sys_close P (file_desc s) (world s) = (-1, 9, []) \<and>
       Close P s = Some \<lparr>busfile = ''/dev/i2c-1'', file_desc = -1, errno = 9, world = [],
                         calls = [CloseCall 3 (-1)]\<rparr> \<and>
       Read P [0, 0] 2 0x77 t = Some (nf, [0, 0], t') \<and>
       Write P [0, 0] 2 0x77 t = Some (nf, t') \<and>
       Write_string P ''ab'' 0x77 t = Some (nf, t') \<and>
       Xfer P [0] 1 [0, 0] 2 0x77 t = Some (nf, [0, 0], t') \<and>
       ends_closed P t t' \<and> session_released ''/dev/i2c-1'' 3 (new_calls t t')) \<and>
   (let P = demo_platform (-1) 0 0 [] 0;
        t = I2CBus_ctor ''/dev/i2c-1'' [];
        bu = Inl (I2CException \<lparr>message = ''I2CBus::Open(addr)'',
               procname = ''Unable to open I2C Bus file /dev/i2c-1'', timeof_exc = 1536000000\<rparr>);
        t' = \<lparr>busfile = ''/dev/i2c-1'', file_desc = -1, errno = 0, world = [],
               calls = [OpenCall ''/dev/i2c-1'' (-1)]\<rparr>
    in -1 \<le> fst (sys_open P (busfile t) (world t)) \<and>
       Read P [0, 0] 2 0x50 t = Some (bu, [0, 0], t') \<and>
       Write P [0, 0] 2 0x50 t = Some (bu, t') \<and>
       Write_string P ''ab'' 0x50 t = Some (bu, t') \<and>
       Xfer P [0] 1 [0, 0] 2 0x50 t = Some (bu, [0, 0], t') \<and>
       ends_closed P t t' \<and> file_desc t' = -1)"
proof -
  let ?P = "demo_platform 3 0 2 [0xAA, 0xBB] 2"
  let ?s = "I2CBus_ctor ''/dev/i2c-1'' [(-1, 4)] :: (int \<times> int) list state"
  let ?c = "\<lparr>busfile = ''/dev/i2c-1'', file_desc = -1, errno = 0, world = [(-1, 4)] :: (int \<times> int) list,
             calls = []\<rparr>"
  let ?t1 = "\<lparr>busfile = ''/dev/i2c-1'', file_desc = -1, errno = 4, world = [] :: (int \<times> int) list,
               calls = [OpenCall ''/dev/i2c-1'' 3, IoctlCall 3 0x50 0, ReadCall 3 2 2,
                        CloseCall 3 (-1), CloseCall 3 0]\<rparr>"
  let ?t2 = "\<lparr>busfile = ''/dev/i2c-1'', file_desc = -1, errno = 4, world = [] :: (int \<times> int) list,
               calls = [OpenCall ''/dev/i2c-1'' 3, IoctlCall 3 0x50 0, WriteCall 3 [0, 0] 2 2,
                        CloseCall 3 (-1), CloseCall 3 0]\<rparr>"
  let ?t3 = "\<lparr>busfile = ''/dev/i2c-1'', file_desc = -1, errno = 4, world = [] :: (int \<times> int) list,
               calls = [OpenCall ''/dev/i2c-1'' 3, IoctlCall 3 0x50 0,
                        WriteCall 3 [97, 98, 0] 2 2, CloseCall 3 (-1), CloseCall 3 0]\<rparr>"
  let ?r4 = "Inl (I2CException \<lparr>message = ''I2CConnection::Xfer(odat, olen, idat, ilen, i2caddr)'',
               procname = ''Write length error.'', timeof_exc = 1536000000\<rparr>) :: thrown + unit"
  let ?t4 = "\<lparr>busfile = ''/dev/i2c-1'', file_desc = -1, errno = 4, world = [] :: (int \<times> int) list,
               calls = [OpenCall ''/dev/i2c-1'' 3, IoctlCall 3 0x50 0, WriteCall 3 [0] 1 2,
                        CloseCall 3 (-1), CloseCall 3 0]\<rparr>"
  have f: "file_desc ?s = -1" "?s\<lparr>errno := 0\<rparr> = ?c" "?c\<lparr>errno := 0\<rparr> = ?c"
    "-1 \<le> fst (sys_open ?P (busfile ?s) (world ?s))"
    by (simp_all add: I2CBus_ctor_def demo_platform_def)
  have e1: "Read ?P [0, 0] 2 0x50 ?s = Some (Inr (), [0xAA, 0xBB], ?t1)" by code_simp
  have e2: "Write ?P [0, 0] 2 0x50 ?s = Some (Inr (), ?t2)" by code_simp
  have e3: "Write_string ?P ''ab'' 0x50 ?s = Some (Inr (), ?t3)" by code_simp
  have e4: "Xfer ?P [0] 1 [0, 0] 2 0x50 ?s = Some (?r4, [0, 0], ?t4)" by code_simp
  have e5: "Close ?P ?s = Some ?c" by code_simp
  have c: "\<forall>u. \<exists>u'. Close ?P u = Some u'"
    using demo_Close_returns by blast
  note A = Close_idempotent_and_sessions_end_closed [where P = ?P and s = ?s and c' = ?c
      and t = ?s and data = "[0, 0]" and len = 2 and addr = "0x50" and ?r1.0 = "Inr ()"
      and ?buf1.0 = "[0xAA, 0xBB]" and ?t1.0 = ?t1 and ?r2.0 = "Inr ()" and ?t2.0 = ?t2
      and dat = "''ab''" and ?r3.0 = "Inr ()" and ?t3.0 = ?t3 and odat = "[0]" and olen = 1
      and idat = "[0, 0]" and ilen = 2 and ?r4.0 = ?r4 and ?buf4.0 = "[0, 0]" and ?t4.0 = ?t4]
  let ?Q = "demo_platform 3 (-1) 0 [] 0"
  let ?o = "\<lparr>busfile = ''/dev/i2c-1'', file_desc = 3, errno = 0, world = [(-1, 9)] :: (int \<times> int) list,
             calls = []\<rparr>"
  let ?t = "I2CBus_ctor ''/dev/i2c-1'' [] :: (int \<times> int) list state"
  let ?nf = "Inl (I2CNotFoundException \<lparr>message = ''I2CBus::Open(addr)'',
               procname = ''Unable to find device address 0x77'', timeof_exc = 1536000000\<rparr>)
             :: thrown + unit"
  let ?t' = "\<lparr>busfile = ''/dev/i2c-1'', file_desc = -1, errno = 0, world = [] :: (int \<times> int) list,
               calls = [OpenCall ''/dev/i2c-1'' 3, IoctlCall 3 0x77 (-1), CloseCall 3 0]\<rparr>"
  have g: "file_desc ?o \<noteq> -1" "sys_close ?Q (file_desc ?o) (world ?o) = (-1, 9, [])"
    "\<not> ((-1::int) < 0 \<and> (9::int) = EINTR)"
    by (simp_all add: demo_platform_def EINTR_def)
  have b1: "Read ?Q [0, 0] 2 0x77 ?t = Some (?nf, [0, 0], ?t')" by code_simp
  have b2: "Write ?Q [0, 0] 2 0x77 ?t = Some (?nf, ?t')" by code_simp
  have b3: "Write_string ?Q ''ab'' 0x77 ?t = Some (?nf, ?t')" by code_simp
  have b4: "Xfer ?Q [0] 1 [0, 0] 2 0x77 ?t = Some (?nf, [0, 0], ?t')" by code_simp
  note B = Close_idempotent_and_sessions_end_closed [where P = ?Q and s = ?o and r = "-1"
      and e = 9 and w = "[]"
      and t = ?t and data = "[0, 0]" and len = 2 and addr = "0x77" and ?r1.0 = ?nf
      and ?buf1.0 = "[0, 0]" and ?t1.0 = ?t' and ?r2.0 = ?nf and ?t2.0 = ?t'
      and dat = "''ab''" and ?r3.0 = ?nf and ?t3.0 = ?t' and odat = "[0]" and olen = 1
      and idat = "[0, 0]" and ilen = 2 and ?r4.0 = ?nf and ?buf4.0 = "[0, 0]" and ?t4.0 = ?t']
  let ?R = "demo_platform (-1) 0 0 [] 0"
  let ?bu = "Inl (I2CException \<lparr>message = ''I2CBus::Open(addr)'',
               procname = ''Unable to open I2C Bus file /dev/i2c-1'', timeof_exc = 1536000000\<rparr>)
             :: thrown + unit"
  let ?u' = "\<lparr>busfile = ''/dev/i2c-1'', file_desc = -1, errno = 0, world = [] :: (int \<times> int) list,
               calls = [OpenCall ''/dev/i2c-1'' (-1)]\<rparr>"
  have h: "-1 \<le> fst (sys_open ?R (busfile ?t) (world ?t))"
    by (simp add: demo_platform_def)
  have d1: "Read ?R [0, 0] 2 0x50 ?t = Some (?bu, [0, 0], ?u')" by code_simp
  have d2: "Write ?R [0, 0] 2 0x50 ?t = Some (?bu, ?u')" by code_simp
  have d3: "Write_string ?R ''ab'' 0x50 ?t = Some (?bu, ?u')" by code_simp
  have d4: "Xfer ?R [0] 1 [0, 0] 2 0x50 ?t = Some (?bu, [0, 0], ?u')" by code_simp
  note C = Close_idempotent_and_sessions_end_closed [where P = ?R
      and t = ?t and data = "[0, 0]" and len = 2 and addr = "0x50" and ?r1.0 = ?bu
      and ?buf1.0 = "[0, 0]" and ?t1.0 = ?u' and ?r2.0 = ?bu and ?t2.0 = ?u'
      and dat = "''ab''" and ?r3.0 = ?bu and ?t3.0 = ?u' and odat = "[0]" and olen = 1
      and idat = "[0, 0]" and ilen = 2 and ?r4.0 = ?bu and ?buf4.0 = "[0, 0]" and ?t4.0 = ?u']
  have sr: "session_released ''/dev/i2c-1'' 3 (new_calls ?t ?t')" by code_simp
  from A f e1 e2 e3 e4 e5 c have 1: "file_desc ?s = -1 \<and> Close ?P ?s = Some ?c \<and>
       Close ?P ?c = Some ?c \<and> -1 \<le> fst (sys_open ?P (busfile ?s) (world ?s)) \<and>
       Read ?P [0, 0] 2 0x50 ?s = Some (Inr (), [0xAA, 0xBB], ?t1) \<and> ends_closed ?P ?s ?t1 \<and>
       Write ?P [0, 0] 2 0x50 ?s = Some (Inr (), ?t2) \<and> ends_closed ?P ?s ?t2 \<and>
       Write_string ?P ''ab'' 0x50 ?s = Some (Inr (), ?t3) \<and> ends_closed ?P ?s ?t3 \<and>
       Xfer ?P [0] 1 [0, 0] 2 0x50 ?s = Some (?r4, [0, 0], ?t4) \<and> ends_closed ?P ?s ?t4 \<and>
       (\<forall>u. \<exists>u'. Close ?P u = Some u')"
    by simp
  from B g b1 b2 b3 b4 sr have 2: "file_desc ?o \<noteq> -1 \<and>
       sys_close ?Q (file_desc ?o) (world ?o) = (-1, 9, []) \<and>
       Close ?Q ?o = Some \<lparr>busfile = ''/dev/i2c-1'', file_desc = -1, errno = 9, world = [],
                         calls = [CloseCall 3 (-1)]\<rparr> \<and>
       Read ?Q [0, 0] 2 0x77 ?t = Some (?nf, [0, 0], ?t') \<and>
       Write ?Q [0, 0] 2 0x77 ?t = Some (?nf, ?t') \<and>
       Write_string ?Q ''ab'' 0x77 ?t = Some (?nf, ?t') \<and>
       Xfer ?Q [0] 1 [0, 0] 2 0x77 ?t = Some (?nf, [0, 0], ?t') \<and>
       ends_closed ?Q ?t ?t' \<and> session_released ''/dev/i2c-1'' 3 (new_calls ?t ?t')"
    by simp
  from C h d1 d2 d3 d4 have 3: "-1 \<le> fst (sys_open ?R (busfile ?t) (world ?t)) \<and>
       Read ?R [0, 0] 2 0x50 ?t = Some (?bu, [0, 0], ?u') \<and>
       Write ?R [0, 0] 2 0x50 ?t = Some (?bu, ?u') \<and>
       Write_string ?R ''ab'' 0x50 ?t = Some (?bu, ?u') \<and>
       Xfer ?R [0] 1 [0, 0] 2 0x50 ?t = Some (?bu, [0, 0], ?u') \<and>
       ends_closed ?R ?t ?u' \<and> file_desc ?u' = -1"
    by simp
  from 1 2 3 show ?thesis unfolding Let_def by blast
qed

subsection \<open>Xfer: the read follows a complete write\<close>

lemma only_close_no_read: "only_close fd cs \<Longrightarrow> \<not> list_ex is_read cs"
  by (induction fd cs rule: only_close.induct) auto

lemma Xfer_phases:
  assumes "Xfer P odat olen idat ilen i2caddr s = Some (res, buf, s')"
  shows "(list_ex is_read (new_calls s s') \<longrightarrow>
            (\<exists>fd. WriteCall fd odat olen olen \<in> set (new_calls s s'))) \<and>
         (\<forall>fd d l n. WriteCall fd d l n \<in> set (new_calls s s') \<longrightarrow>
            d = odat \<and> l = olen \<and>
            (n \<noteq> olen \<longrightarrow>
               is_generic res \<and> buf = idat \<and> file_desc s' = -1 \<and>
               \<not> list_ex is_read (new_calls s s') \<and>
               (\<exists>io cs. new_calls s s' = [OpenCall (busfile s) fd, IoctlCall fd i2caddr io,
                            WriteCall fd odat olen n] @ cs \<and> cs \<noteq> [] \<and> only_close fd cs))) \<and>
         (\<forall>fd l k. ReadCall fd l k \<in> set (new_calls s s') \<longrightarrow>
            l = ilen \<and> (res = Inr ()) = (k = ilen) \<and>
            (k \<noteq> ilen \<longrightarrow>
               is_generic res \<and> file_desc s' = -1 \<and>
               (\<exists>io cs. new_calls s s' = [OpenCall (busfile s) fd, IoctlCall fd i2caddr io,
                            WriteCall fd odat olen olen, ReadCall fd ilen k] @ cs \<and>
                          cs \<noteq> [] \<and> only_close fd cs)))"
  using assms
proof (cases rule: Xfer_log)
  case (open_failed fd e)
  then show ?thesis by (auto simp: new_calls_append)
next
  case (not_found fd io cs e)
  then show ?thesis by (auto simp: new_calls_append only_close_no_read dest: only_close_mem)
next
  case (short_write fd io n cs)
  then show ?thesis by (auto simp: new_calls_append only_close_no_read dest: only_close_mem)
next
  case (transfer fd io k cs)
  then show ?thesis by (auto simp: new_calls_append only_close_no_read dest: only_close_mem)
qed


text \<open>
  C4. Let \<open>::open\<close> and the \<open>ioctl\<close> succeed, let \<open>::write\<close> of \<open>olen\<close> bytes report \<open>n\<close>
  and let \<open>::read\<close> of \<open>ilen\<close> bytes, in the world after that write, report \<open>k\<close>. If
  \<open>n\<close> is not \<open>olen\<close>, an \<open>Xfer\<close> that returns has raised the generic write length
  error, the input buffer is untouched, and the log is the open, the \<open>ioctl\<close>, the write
  and then only \<open>::close\<close> of the descriptor, at least once: no read was attempted and
  the bus is closed when the exception is thrown. If \<open>n\<close> is \<open>olen\<close>, the log is the
  open, the \<open>ioctl\<close>, the write, the read and then the closes; the result is the generic
  read length error if \<open>k\<close> is not \<open>ilen\<close> and success otherwise, and the buffer is the
  one \<open>::read\<close> has left. In every log of \<open>Xfer\<close>, a read occurs only with a write that
  reported \<open>olen\<close>. \<open>Xfer\<close> returns on a platform on which \<open>Close\<close> returns.
\<close>

theorem Xfer_read_only_after_complete_write:
  "(Xfer P odat olen idat ilen i2caddr s = Some (res, buf, s') \<and>
    sys_open P (busfile s) (world s) = (fd, w0) \<and> 0 \<le> fd \<and>
    sys_ioctl P fd i2caddr w0 = (io, w1) \<and> 0 \<le> io \<and>
    sys_write P fd odat olen w1 = (n, w2) \<and> sys_read P fd idat ilen w2 = (k, pbuf, w3) \<longrightarrow>
      (n \<noteq> olen \<longrightarrow>
         res = Inl (I2CException (I2CException_ctor
                 ''I2CConnection::Xfer(odat, olen, idat, ilen, i2caddr)''
                 ''Write length error.'' (sys_time P (world s')))) \<and>
         buf = idat \<and> file_desc s' = -1 \<and> \<not> list_ex is_read (new_calls s s') \<and>
         (\<exists>cs. new_calls s s' = [OpenCall (busfile s) fd, IoctlCall fd i2caddr io,
                                 WriteCall fd odat olen n] @ cs \<and>
               cs \<noteq> [] \<and> only_close fd cs)) \<and>
      (n = olen \<longrightarrow>
         res = (if k \<noteq> ilen then Inl (I2CException (I2CException_ctor
                  ''I2CConnection::Xfer(odat, olen, idat, ilen, i2caddr)''
                  ''Read length error.'' (sys_time P (world s')))) else Inr ()) \<and>
         buf = pbuf \<and> file_desc s' = -1 \<and>
         (\<exists>cs. new_calls s s' = [OpenCall (busfile s) fd, IoctlCall fd i2caddr io,
                                 WriteCall fd odat olen olen, ReadCall fd ilen k] @ cs \<and>
               cs \<noteq> [] \<and> only_close fd cs))) \<and>
   (Xfer P odat olen idat ilen i2caddr s = Some (res, buf, s') \<longrightarrow>
      (list_ex is_read (new_calls s s') \<longrightarrow>
         (\<exists>f. WriteCall f odat olen olen \<in> set (new_calls s s'))) \<and>
      (\<forall>f d l m. WriteCall f d l m \<in> set (new_calls s s') \<longrightarrow>
         d = odat \<and> l = olen \<and>
         (m \<noteq> olen \<longrightarrow>
            is_generic res \<and> buf = idat \<and> file_desc s' = -1 \<and>
            \<not> list_ex is_read (new_calls s s'))) \<and>
      (\<forall>f l j. ReadCall f l j \<in> set (new_calls s s') \<longrightarrow>
         l = ilen \<and> (res = Inr ()) = (j = ilen) \<and>
         (j \<noteq> ilen \<longrightarrow> is_generic res \<and> file_desc s' = -1))) \<and>
   ((\<forall>u. \<exists>u'. Close P u = Some u') \<longrightarrow>
      (\<exists>x b u. Xfer P odat olen idat ilen i2caddr s = Some (x, b, u)))"
proof (intro conjI impI)
  assume h: "Xfer P odat olen idat ilen i2caddr s = Some (res, buf, s') \<and>
    sys_open P (busfile s) (world s) = (fd, w0) \<and> 0 \<le> fd \<and>
    sys_ioctl P fd i2caddr w0 = (io, w1) \<and> 0 \<le> io \<and>
    sys_write P fd odat olen w1 = (n, w2) \<and> sys_read P fd idat ilen w2 = (k, pbuf, w3)"
  then have x: "Xfer P odat olen idat ilen i2caddr s = Some (res, buf, s')"
    and o: "sys_open P (busfile s) (world s) = (fd, w0)"
    and i: "sys_ioctl P fd i2caddr w0 = (io, w1)"
    and w: "sys_write P fd odat olen w1 = (n, w2)"
    and r: "sys_read P fd idat ilen w2 = (k, pbuf, w3)"
    and ok: "0 \<le> fd" "0 \<le> io"
    by simp_all
  note xs = Xfer_session [OF x o i w r]
  {
    assume n: "n \<noteq> olen"
    with xs ok obtain cs where sw:
      "res = Inl (I2CException (I2CException_ctor
                 ''I2CConnection::Xfer(odat, olen, idat, ilen, i2caddr)''
                 ''Write length error.'' (sys_time P (world s'))))"
      "buf = idat" "file_desc s' = -1"
      "new_calls s s' = [OpenCall (busfile s) fd, IoctlCall fd i2caddr io,
                         WriteCall fd odat olen n] @ cs" "cs \<noteq> []" "only_close fd cs"
      by auto
    from sw(1) show "res = Inl (I2CException (I2CException_ctor
                 ''I2CConnection::Xfer(odat, olen, idat, ilen, i2caddr)''
                 ''Write length error.'' (sys_time P (world s'))))" .
    from sw(2) show "buf = idat" .
    from sw(3) show "file_desc s' = -1" .
    from sw(4,6) show "\<not> list_ex is_read (new_calls s s')"
      by (simp add: only_close_no_read)
    from sw(4-6) show "\<exists>cs. new_calls s s' = [OpenCall (busfile s) fd, IoctlCall fd i2caddr io,
                                 WriteCall fd odat olen n] @ cs \<and>
               cs \<noteq> [] \<and> only_close fd cs" by blast
  }
  {
    assume n: "n = olen"
    with xs ok show "res = (if k \<noteq> ilen then Inl (I2CException (I2CException_ctor
                  ''I2CConnection::Xfer(odat, olen, idat, ilen, i2caddr)''
                  ''Read length error.'' (sys_time P (world s')))) else Inr ())"
      and "buf = pbuf" and "file_desc s' = -1"
      and "\<exists>cs. new_calls s s' = [OpenCall (busfile s) fd, IoctlCall fd i2caddr io,
                                 WriteCall fd odat olen olen, ReadCall fd ilen k] @ cs \<and>
               cs \<noteq> [] \<and> only_close fd cs"
      by simp_all
  }
next
  assume "Xfer P odat olen idat ilen i2caddr s = Some (res, buf, s')"
  from Xfer_phases [OF this]
  show "list_ex is_read (new_calls s s') \<Longrightarrow>
          \<exists>f. WriteCall f odat olen olen \<in> set (new_calls s s')"
    and "\<forall>f d l m. WriteCall f d l m \<in> set (new_calls s s') \<longrightarrow>
         d = odat \<and> l = olen \<and>
         (m \<noteq> olen \<longrightarrow>
            is_generic res \<and> buf = idat \<and> file_desc s' = -1 \<and>
            \<not> list_ex is_read (new_calls s s'))"
    and "\<forall>f l j. ReadCall f l j \<in> set (new_calls s s') \<longrightarrow>
         l = ilen \<and> (res = Inr ()) = (j = ilen) \<and>
         (j \<noteq> ilen \<longrightarrow> is_generic res \<and> file_desc s' = -1)"
    by blast+
next
  assume "\<forall>u. \<exists>u'. Close P u = Some u'"
  then show "\<exists>x b u. Xfer P odat olen idat ilen i2caddr s = Some (x, b, u)"
    using Xfer_returns [of P odat olen idat ilen i2caddr s] by blast
qed


theorem Xfer_read_only_after_complete_write_witness:
  "(let P = demo_platform 3 0 2 [0xAA, 0xBB] 0;
        s = I2CBus_ctor ''/dev/i2c-1'' [];
        res = Inl (I2CException \<lparr>message = ''I2CConnection::Xfer(odat, olen, idat, ilen, i2caddr)'',
                procname = ''Write length error.'', timeof_exc = 1536000000\<rparr>);
        s' = \<lparr>busfile = ''/dev/i2c-1'', file_desc = -1, errno = 0, world = [],
               calls = [OpenCall ''/dev/i2c-1'' 3, IoctlCall 3 0x50 0, WriteCall 3 [0] 1 0,
                        CloseCall 3 0]\<rparr>
    in sys_open P (busfile s) (world s) = (3, []) \<and> sys_ioctl P 3 0x50 [] = (0, []) \<and>
       sys_write P 3 [0] 1 [] = (0, []) \<and>
       Xfer P [0] 1 [0, 0] 2 0x50 s = Some (res, [0, 0], s') \<and>
       file_desc s' = -1 \<and> \<not> list_ex is_read (new_calls s s') \<and>
       (\<forall>u. \<exists>u'. Close P u = Some u')) \<and>
   (let P = demo_platform 3 0 1 [0xAA] 1;
        s = I2CBus_ctor ''/dev/i2c-1'' [];
        res = Inl (I2CException \<lparr>message = ''I2CConnection::Xfer(odat, olen, idat, ilen, i2caddr)'',
                procname = ''Read length error.'', timeof_exc = 1536000000\<rparr>);
        s' = \<lparr>busfile = ''/dev/i2c-1'', file_desc = -1, errno = 0, world = [],
               calls = [OpenCall ''/dev/i2c-1'' 3, IoctlCall 3 0x50 0, WriteCall 3 [0] 1 1,
                        ReadCall 3 2 1, CloseCall 3 0]\<rparr>
    in sys_write P 3 [0] 1 [] = (1, []) \<and> sys_read P 3 [0, 0] 2 [] = (1, [0xAA, 0], []) \<and>
       Xfer P [0] 1 [0, 0] 2 0x50 s = Some (res, [0xAA, 0], s') \<and>
       file_desc s' = -1 \<and> list_ex is_read (new_calls s s') \<and>
       WriteCall 3 [0] 1 1 \<in> set (new_calls s s')) \<and>
   (let P = demo_platform 3 0 2 [0xAA, 0xBB] 1;
        s = I2CBus_ctor ''/dev/i2c-1'' [];
        s' = \<lparr>busfile = ''/dev/i2c-1'', file_desc = -1, errno = 0, world = [],
               calls = [OpenCall ''/dev/i2c-1'' 3, IoctlCall 3 0x50 0, WriteCall 3 [0] 1 1,
                        ReadCall 3 2 2, CloseCall 3 0]\<rparr>
    in sys_write P 3 [0] 1 [] = (1, []) \<and> sys_read P 3 [0, 0] 2 [] = (2, [0xAA, 0xBB], []) \<and>
       Xfer P [0] 1 [0, 0] 2 0x50 s = Some (Inr (), [0xAA, 0xBB], s') \<and> file_desc s' = -1)"
proof -
  let ?s = "I2CBus_ctor ''/dev/i2c-1'' [] :: (int \<times> int) list state"
  let ?P = "demo_platform 3 0 2 [0xAA, 0xBB] 0"
  let ?res = "Inl (I2CException \<lparr>message = ''I2CConnection::Xfer(odat, olen, idat, ilen, i2caddr)'',
                procname = ''Write length error.'', timeof_exc = 1536000000\<rparr>) :: thrown + unit"
  let ?s' = "\<lparr>busfile = ''/dev/i2c-1'', file_desc = -1, errno = 0, world = [] :: (int \<times> int) list,
               calls = [OpenCall ''/dev/i2c-1'' 3, IoctlCall 3 0x50 0, WriteCall 3 [0] 1 0,
                        CloseCall 3 0]\<rparr>"
  have p1: "sys_open ?P (busfile ?s) (world ?s) = (3, [])" "sys_ioctl ?P 3 0x50 [] = (0, [])"
    "sys_write ?P 3 [0] 1 [] = (0, [])" "sys_read ?P 3 [0, 0] 2 [] = (2, [0xAA, 0xBB], [])"
    by (simp_all add: demo_platform_def I2CBus_ctor_def)
  have e1: "Xfer ?P [0] 1 [0, 0] 2 0x50 ?s = Some (?res, [0, 0], ?s')" by code_simp
  have c: "\<forall>u. \<exists>u'. Close ?P u = Some u'"
    using demo_Close_returns by blast
  from Xfer_read_only_after_complete_write [where P = ?P and odat = "[0]" and olen = 1
      and idat = "[0, 0]" and ilen = 2 and ?i2caddr = "0x50" and s = ?s and res = ?res
      and buf = "[0, 0]" and s' = ?s' and fd = 3 and ?w0.0 = "[]" and io = 0 and ?w1.0 = "[]"
      and n = 0 and ?w2.0 = "[]" and k = 2 and pbuf = "[0xAA, 0xBB]" and ?w3.0 = "[]"]
    p1 e1 c
  have 1: "sys_open ?P (busfile ?s) (world ?s) = (3, []) \<and> sys_ioctl ?P 3 0x50 [] = (0, []) \<and>
       sys_write ?P 3 [0] 1 [] = (0, []) \<and>
       Xfer ?P [0] 1 [0, 0] 2 0x50 ?s = Some (?res, [0, 0], ?s') \<and>
       file_desc ?s' = -1 \<and> \<not> list_ex is_read (new_calls ?s ?s') \<and>
       (\<forall>u. \<exists>u'. Close ?P u = Some u')"
    by simp
  let ?Q = "demo_platform 3 0 1 [0xAA] 1"
  let ?rm = "Inl (I2CException \<lparr>message = ''I2CConnection::Xfer(odat, olen, idat, ilen, i2caddr)'',
                procname = ''Read length error.'', timeof_exc = 1536000000\<rparr>) :: thrown + unit"
  let ?m' = "\<lparr>busfile = ''/dev/i2c-1'', file_desc = -1, errno = 0, world = [] :: (int \<times> int) list,
               calls = [OpenCall ''/dev/i2c-1'' 3, IoctlCall 3 0x50 0, WriteCall 3 [0] 1 1,
                        ReadCall 3 2 1, CloseCall 3 0]\<rparr>"
  have p2: "sys_open ?Q (busfile ?s) (world ?s) = (3, [])" "sys_ioctl ?Q 3 0x50 [] = (0, [])"
    "sys_write ?Q 3 [0] 1 [] = (1, [])" "sys_read ?Q 3 [0, 0] 2 [] = (1, [0xAA, 0], [])"
    by (simp_all add: demo_platform_def I2CBus_ctor_def)
  have e2: "Xfer ?Q [0] 1 [0, 0] 2 0x50 ?s = Some (?rm, [0xAA, 0], ?m')" by code_simp
  have l2: "list_ex is_read (new_calls ?s ?m')" "WriteCall 3 [0] 1 1 \<in> set (new_calls ?s ?m')"
    by code_simp+
  from Xfer_read_only_after_complete_write [where P = ?Q and odat = "[0]" and olen = 1
      and idat = "[0, 0]" and ilen = 2 and ?i2caddr = "0x50" and s = ?s and res = ?rm
      and buf = "[0xAA, 0]" and s' = ?m' and fd = 3 and ?w0.0 = "[]" and io = 0 and ?w1.0 = "[]"
      and n = 1 and ?w2.0 = "[]" and k = 1 and pbuf = "[0xAA, 0]" and ?w3.0 = "[]"]
    p2 e2 l2
  have 2: "sys_write ?Q 3 [0] 1 [] = (1, []) \<and> sys_read ?Q 3 [0, 0] 2 [] = (1, [0xAA, 0], []) \<and>
       Xfer ?Q [0] 1 [0, 0] 2 0x50 ?s = Some (?rm, [0xAA, 0], ?m') \<and>
       file_desc ?m' = -1 \<and> list_ex is_read (new_calls ?s ?m') \<and>
       WriteCall 3 [0] 1 1 \<in> set (new_calls ?s ?m')"
    by simp
  let ?R = "demo_platform 3 0 2 [0xAA, 0xBB] 1"
  let ?d' = "\<lparr>busfile = ''/dev/i2c-1'', file_desc = -1, errno = 0, world = [] :: (int \<times> int) list,
               calls = [OpenCall ''/dev/i2c-1'' 3, IoctlCall 3 0x50 0, WriteCall 3 [0] 1 1,
                        ReadCall 3 2 2, CloseCall 3 0]\<rparr>"
  have p3: "sys_open ?R (busfile ?s) (world ?s) = (3, [])" "sys_ioctl ?R 3 0x50 [] = (0, [])"
    "sys_write ?R 3 [0] 1 [] = (1, [])" "sys_read ?R 3 [0, 0] 2 [] = (2, [0xAA, 0xBB], [])"
    by (simp_all add: demo_platform_def I2CBus_ctor_def)
  have e3: "Xfer ?R [0] 1 [0, 0] 2 0x50 ?s = Some (Inr (), [0xAA, 0xBB], ?d')" by code_simp
  from Xfer_read_only_after_complete_write [where P = ?R and odat = "[0]" and olen = 1
      and idat = "[0, 0]" and ilen = 2 and ?i2caddr = "0x50" and s = ?s and res = "Inr ()"
      and buf = "[0xAA, 0xBB]" and s' = ?d' and fd = 3 and ?w0.0 = "[]" and io = 0
      and ?w1.0 = "[]" and n = 1 and ?w2.0 = "[]" and k = 2 and pbuf = "[0xAA, 0xBB]"
      and ?w3.0 = "[]"]
    p3 e3
  have 3: "sys_write ?R 3 [0] 1 [] = (1, []) \<and>
       sys_read ?R 3 [0, 0] 2 [] = (2, [0xAA, 0xBB], []) \<and>
       Xfer ?R [0] 1 [0, 0] 2 0x50 ?s = Some (Inr (), [0xAA, 0xBB], ?d') \<and> file_desc ?d' = -1"
    by simp
  from 1 2 3 show ?thesis unfolding Let_def by blast
qed

subsection \<open>The buffer of a failed Read\<close>

text \<open>
  C10. \<open>Read\<close> hands the caller's buffer to \<open>::read\<close> and does not restore it. When the
  bus has been opened and bound, \<open>::read\<close> reports a count other than \<open>len\<close> and leaves
  \<open>pbuf\<close> in the buffer, \<open>Read\<close> raises the read length error and the caller's buffer
  holds \<open>pbuf\<close>.
\<close>

theorem Read_failure_keeps_platform_buffer:
  assumes "Open P addr s = Some (Inr (), s1)"
    and "sys_read P (file_desc s1) data len (world s1) = (n, pbuf, w)"
    and "n \<noteq> len"
    and "Read P data len addr s = Some (res, buf, s')"
  shows "buf = pbuf \<and>
         res = Inl (I2CException (I2CException_ctor ''I2CBus::Read(data, len, addr)''
                 ''Read length error.'' (sys_time P (world s'))))"
proof -
  from Read_cases [OF assms(4)] assms(1) obtain n' s2
    where rc: "read_call P data len s1 = (n', buf, s2)"
      and res: "res = (if n' \<noteq> len then Inl (I2CException (I2CException_ctor
                  ''I2CBus::Read(data, len, addr)'' ''Read length error.''
                  (sys_time P (world s')))) else Inr ())"
    by auto
  from read_call_props(4,5) [OF rc] assms(2) have "buf = pbuf" and "n' = n" by simp_all
  with res assms(3) show ?thesis by simp
qed

theorem Read_failure_keeps_platform_buffer_witness:
  "(let P = demo_platform 3 0 2 [0xAA, 0xBB] 1;
        s = I2CBus_ctor ''/dev/i2c-1'' [];
        s1 = \<lparr>busfile = ''/dev/i2c-1'', file_desc = 3, errno = 0, world = [],
               calls = [OpenCall ''/dev/i2c-1'' 3, IoctlCall 3 0x50 0]\<rparr>;
        res = Inl (I2CException \<lparr>message = ''I2CBus::Read(data, len, addr)'',
                procname = ''Read length error.'', timeof_exc = 1536000000\<rparr>);
        s' = \<lparr>busfile = ''/dev/i2c-1'', file_desc = -1, errno = 0, world = [],
               calls = [OpenCall ''/dev/i2c-1'' 3, IoctlCall 3 0x50 0, ReadCall 3 4 2,
                        CloseCall 3 0]\<rparr>
    in Open P 0x50 s = Some (Inr (), s1) \<and>
       sys_read P (file_desc s1) [0, 0, 0, 0] 4 (world s1) = (2, [0xAA, 0xBB, 0, 0], []) \<and>
       Read P [0, 0, 0, 0] 4 0x50 s = Some (res, [0xAA, 0xBB, 0, 0], s') \<and>
       [0xAA, 0xBB, 0, 0] \<noteq> [0, 0, 0, 0 :: byte])"
proof -
  let ?P = "demo_platform 3 0 2 [0xAA, 0xBB] 1"
  let ?s = "I2CBus_ctor ''/dev/i2c-1'' [] :: (int \<times> int) list state"
  let ?s1 = "\<lparr>busfile = ''/dev/i2c-1'', file_desc = 3, errno = 0, world = [] :: (int \<times> int) list,
               calls = [OpenCall ''/dev/i2c-1'' 3, IoctlCall 3 0x50 0]\<rparr>"
  let ?res = "Inl (I2CException \<lparr>message = ''I2CBus::Read(data, len, addr)'',
                  procname = ''Read length error.'', timeof_exc = 1536000000\<rparr>) :: thrown + unit"
  let ?s' = "\<lparr>busfile = ''/dev/i2c-1'', file_desc = -1, errno = 0, world = [] :: (int \<times> int) list,
            calls = [OpenCall ''/dev/i2c-1'' 3, IoctlCall 3 0x50 0, ReadCall 3 4 2, CloseCall 3 0]\<rparr>"
  have o: "Open ?P 0x50 ?s = Some (Inr (), ?s1)" by code_simp
  have p: "sys_read ?P (file_desc ?s1) [0, 0, 0, 0] 4 (world ?s1) = (2, [0xAA, 0xBB, 0, 0], [])"
    by (simp add: demo_platform_def)
  have r: "Read ?P [0, 0, 0, 0] 4 0x50 ?s = Some (?res, [0xAA, 0xBB, 0, 0], ?s')" by code_simp
  have d: "(2::int) \<noteq> 4" by simp
  from Read_failure_keeps_platform_buffer [OF o p d r] o p r
  show ?thesis unfolding Let_def by simp
qed

subsection \<open>Close retries an interrupted close\<close>

lemma Read_outcome:
  assumes "Read P data len addr s = Some (res, buf, s')"
  shows "no_repeats (new_calls s s') \<and>
         (res = Inr ()) = (\<exists>fd. ReadCall fd len len \<in> set (new_calls s s'))"
  using assms
proof (cases rule: Read_log)
  case (open_failed fd e)
  then show ?thesis by (auto simp: new_calls_append no_repeats_def)
next
  case (not_found fd io cs e)
  then show ?thesis
    by (auto simp: new_calls_append no_repeats_def only_close_filters dest: only_close_mem)
next
  case (transfer fd io n cs)
  then show ?thesis
    by (auto simp: new_calls_append no_repeats_def only_close_filters dest: only_close_mem)
qed

lemma Write_outcome:
  assumes "Write P data len addr s = Some (res, s')"
  shows "no_repeats (new_calls s s') \<and>
         (res = Inr ()) = (\<exists>fd. WriteCall fd data len len \<in> set (new_calls s s'))"
  using assms
proof (cases rule: Write_log)
  case (open_failed fd e)
  then show ?thesis by (auto simp: new_calls_append no_repeats_def)
next
  case (not_found fd io cs e)
  then show ?thesis
    by (auto simp: new_calls_append no_repeats_def only_close_filters dest: only_close_mem)
next
  case (transfer fd io n cs)
  then show ?thesis
    by (auto simp: new_calls_append no_repeats_def only_close_filters dest: only_close_mem)
qed

lemma Write_string_outcome:
  assumes "Write_string P dat addr s = Some (res, s')"
  shows "no_repeats (new_calls s s') \<and>
         (res = Inr ()) = (\<exists>fd. WriteCall fd (c_str dat) (int (length dat)) (int (length dat))
                                  \<in> set (new_calls s s'))"
  using assms
proof (cases rule: Write_string_log)
  case (open_failed fd e)
  then show ?thesis by (auto simp: new_calls_append no_repeats_def)
next
  case (not_found fd io cs e)
  then show ?thesis
    by (auto simp: new_calls_append no_repeats_def only_close_filters dest: only_close_mem)
next
  case (transfer fd io n cs)
  then show ?thesis
    by (auto simp: new_calls_append no_repeats_def only_close_filters dest: only_close_mem)
qed

lemma Xfer_outcome:
  assumes "Xfer P odat olen idat ilen addr s = Some (res, buf, s')"
  shows "no_repeats (new_calls s s') \<and>
         (res = Inr ()) = (\<exists>fd. ReadCall fd ilen ilen \<in> set (new_calls s s'))"
  using assms
proof (cases rule: Xfer_log)
  case (open_failed fd e)
  then show ?thesis by (auto simp: new_calls_append no_repeats_def)
next
  case (not_found fd io cs e)
  then show ?thesis
    by (auto simp: new_calls_append no_repeats_def only_close_filters dest: only_close_mem)
next
  case (short_write fd io n cs)
  then show ?thesis
    by (auto simp: new_calls_append no_repeats_def only_close_filters dest: only_close_mem)
next
  case (transfer fd io n cs)
  then show ?thesis
    by (auto simp: new_calls_append no_repeats_def only_close_filters dest: only_close_mem)
qed


lemma Read_result:
  assumes "Read P data len addr s = Some (res, buf, s')"
    and "sys_open P (busfile s) (world s) = (fd, w0)"
    and "sys_ioctl P fd addr w0 = (io, w1)"
    and "sys_read P fd data len w1 = (n, pbuf, w2)"
  shows "(res = Inr ()) = (0 \<le> fd \<and> 0 \<le> io \<and> n = len)"
  using Read_session [OF assms] by (cases "fd < 0"; cases "io < 0") auto

lemma Write_result:
  assumes "Write P data len addr s = Some (res, s')"
    and "sys_open P (busfile s) (world s) = (fd, w0)"
    and "sys_ioctl P fd addr w0 = (io, w1)"
    and "sys_write P fd data len w1 = (n, w2)"
  shows "(res = Inr ()) = (0 \<le> fd \<and> 0 \<le> io \<and> n = len)"
  using Write_session [OF assms] by (cases "fd < 0"; cases "io < 0") auto

lemma Write_string_result:
  assumes "Write_string P dat addr s = Some (res, s')"
    and "sys_open P (busfile s) (world s) = (fd, w0)"
    and "sys_ioctl P fd addr w0 = (io, w1)"
    and "sys_write P fd (c_str dat) (int (length dat)) w1 = (n, w2)"
  shows "(res = Inr ()) = (0 \<le> fd \<and> 0 \<le> io \<and> n = int (length dat))"
  using Write_string_session [OF assms] by (cases "fd < 0"; cases "io < 0") auto

lemma Xfer_result:
  assumes "Xfer P odat olen idat ilen addr s = Some (res, buf, s')"
    and "sys_open P (busfile s) (world s) = (fd, w0)"
    and "sys_ioctl P fd addr w0 = (io, w1)"
    and "sys_write P fd odat olen w1 = (n, w2)"
    and "sys_read P fd idat ilen w2 = (k, pbuf, w3)"
  shows "(res = Inr ()) = (0 \<le> fd \<and> 0 \<le> io \<and> n = olen \<and> k = ilen)"
  using Xfer_session [OF assms] by (cases "fd < 0"; cases "io < 0"; cases "n = olen") auto

lemma Close_closes_only:
  assumes "Close P s = Some c"
  shows "file_desc c = -1 \<and> only_close (file_desc s) (new_calls s c)"
  using Close_shape [OF assms] by (auto simp: new_calls_append)

text \<open>
  C6, as the code has it. The claim that an interrupted \<open>::close\<close> is retried exactly
  once fails: \<open>Write({0x10}, 1, 0x50)\<close> on a platform whose \<open>::close\<close> is interrupted
  twice (result \<open>-1\<close>, error number 4, which is \<open>EINTR\<close>) calls \<open>::close\<close> three times,
  so the release is retried twice.
\<close>

theorem Write_retries_close_twice:
  "Write (demo_platform 3 0 0 [] 1) [0x10] 1 0x50 (I2CBus_ctor ''/dev/i2c-1'' [(-1, 4), (-1, 4)]) =
     Some (Inr (),
       \<lparr>busfile = ''/dev/i2c-1'', file_desc = -1, errno = 4, world = [],
        calls = [OpenCall ''/dev/i2c-1'' 3, IoctlCall 3 0x50 0, WriteCall 3 [0x10] 1 1,
                 CloseCall 3 (-1), CloseCall 3 (-1), CloseCall 3 0]\<rparr>) \<and>
   EINTR = 4"
  by code_simp

text \<open>
  C6, amended. Let the first \<open>::close\<close> of \<open>Close\<close> fail with \<open>EINTR\<close>. \<open>Close\<close> then
  repeats \<open>::close\<close> for as long as the repeated call returns \<open>-1\<close> with \<open>EINTR\<close>: if the
  first \<open>n\<close> repeated calls are interrupted and the next one is not, \<open>Close\<close> returns
  with the descriptor \<open>-1\<close> after exactly \<open>n + 2\<close> calls of \<open>::close\<close>, in the world that
  these calls have left and whatever the last of them has returned. The release is
  retried exactly once only for \<open>n = 0\<close>. If every repeated call is interrupted,
  \<open>Close\<close> does not return. A first \<open>::close\<close> that succeeds, or fails with another
  error, is not repeated. \<open>Close\<close> makes no system call but \<open>::close\<close> of its descriptor
  and has no failure to raise. In \<open>Read\<close>, \<open>Write\<close> and \<open>Xfer\<close> no system call other
  than \<open>::close\<close> is made twice, and a call that returns has succeeded exactly if
  \<open>::open\<close> and the \<open>ioctl\<close> succeeded and every transfer reported the requested count,
  whatever the \<open>::close\<close> calls returned. These functions return on a platform on which
  \<open>Close\<close> returns.
\<close>

theorem Close_retries_while_interrupted:
  "(file_desc s \<noteq> -1 \<and> sys_close P (file_desc s) (world s) = (r1, EINTR, w1) \<and> r1 < 0 \<and>
    (\<forall>i<n. interrupted P (file_desc s) (close_world P (file_desc s) i w1)) \<and>
    \<not> interrupted P (file_desc s) (close_world P (file_desc s) n w1) \<longrightarrow>
      (\<exists>c. Close P s = Some c \<and> file_desc c = -1 \<and> busfile c = busfile s \<and>
           world c = close_world P (file_desc s) (Suc n) w1 \<and>
           new_calls s c =
             CloseCall (file_desc s) r1 # replicate n (CloseCall (file_desc s) (-1)) @
             [CloseCall (file_desc s)
                (fst (sys_close P (file_desc s) (close_world P (file_desc s) n w1)))])) \<and>
   (file_desc t \<noteq> -1 \<and> sys_close P (file_desc t) (world t) = (q1, EINTR, v1) \<and> q1 < 0 \<and>
    (\<forall>i. interrupted P (file_desc t) (close_world P (file_desc t) i v1)) \<longrightarrow>
      Close P t = None) \<and>
   (file_desc u \<noteq> -1 \<and> sys_close P (file_desc u) (world u) = (r, e, w) \<and>
    \<not> (r < 0 \<and> e = EINTR) \<longrightarrow>
      Close P u = Some (u\<lparr>file_desc := -1, errno := (if r < 0 then e else 0), world := w,
        calls := calls u @ [CloseCall (file_desc u) r]\<rparr>)) \<and>
   (Close P u = Some c' \<longrightarrow> file_desc c' = -1 \<and> only_close (file_desc u) (new_calls u c')) \<and>
   (Read P data len addr a = Some (res1, buf1, a1) \<and>
    sys_open P (busfile a) (world a) = (fd, w0) \<and> sys_ioctl P fd addr w0 = (io, x1) \<and>
    sys_read P fd data len x1 = (m1, pbuf1, y1) \<longrightarrow>
      (res1 = Inr ()) = (0 \<le> fd \<and> 0 \<le> io \<and> m1 = len) \<and> no_repeats (new_calls a a1)) \<and>
   (Write P data len addr a = Some (res2, a2) \<and>
    sys_open P (busfile a) (world a) = (fd, w0) \<and> sys_ioctl P fd addr w0 = (io, x1) \<and>
    sys_write P fd data len x1 = (m2, y2) \<longrightarrow>
      (res2 = Inr ()) = (0 \<le> fd \<and> 0 \<le> io \<and> m2 = len) \<and> no_repeats (new_calls a a2)) \<and>
   (Write_string P dat addr a = Some (res3, a3) \<and>
    sys_open P (busfile a) (world a) = (fd, w0) \<and> sys_ioctl P fd addr w0 = (io, x1) \<and>
    sys_write P fd (c_str dat) (int (length dat)) x1 = (m3, y3) \<longrightarrow>
      (res3 = Inr ()) = (0 \<le> fd \<and> 0 \<le> io \<and> m3 = int (length dat)) \<and>
      no_repeats (new_calls a a3)) \<and>
   (Xfer P odat olen idat ilen addr a = Some (res4, buf4, a4) \<and>
    sys_open P (busfile a) (world a) = (fd, w0) \<and> sys_ioctl P fd addr w0 = (io, x1) \<and>
    sys_write P fd odat olen x1 = (m4, y4) \<and> sys_read P fd idat ilen y4 = (k4, pbuf4, z4) \<longrightarrow>
      (res4 = Inr ()) = (0 \<le> fd \<and> 0 \<le> io \<and> m4 = olen \<and> k4 = ilen) \<and>
      no_repeats (new_calls a a4)) \<and>
   ((\<forall>v. \<exists>v'. Close P v = Some v') \<longrightarrow>
      (\<exists>x b v. Read P data len addr a = Some (x, b, v)) \<and>
      (\<exists>x v. Write P data len addr a = Some (x, v)) \<and>
      (\<exists>x v. Write_string P dat addr a = Some (x, v)) \<and>
      (\<exists>x b v. Xfer P odat olen idat ilen addr a = Some (x, b, v)))"
proof (intro conjI impI)
  assume "file_desc s \<noteq> -1 \<and> sys_close P (file_desc s) (world s) = (r1, EINTR, w1) \<and> r1 < 0 \<and>
    (\<forall>i<n. interrupted P (file_desc s) (close_world P (file_desc s) i w1)) \<and>
    \<not> interrupted P (file_desc s) (close_world P (file_desc s) n w1)"
  then show "\<exists>c. Close P s = Some c \<and> file_desc c = -1 \<and> busfile c = busfile s \<and>
           world c = close_world P (file_desc s) (Suc n) w1 \<and>
           new_calls s c =
             CloseCall (file_desc s) r1 # replicate n (CloseCall (file_desc s) (-1)) @
             [CloseCall (file_desc s)
                (fst (sys_close P (file_desc s) (close_world P (file_desc s) n w1)))]"
    using Close_run_interrupted [of s P r1 w1 n] by blast
next
  assume "file_desc t \<noteq> -1 \<and> sys_close P (file_desc t) (world t) = (q1, EINTR, v1) \<and> q1 < 0 \<and>
    (\<forall>i. interrupted P (file_desc t) (close_world P (file_desc t) i v1))"
  then show "Close P t = None"
    using Close_run_never_returns [of t P q1 v1] by blast
next
  assume "file_desc u \<noteq> -1 \<and> sys_close P (file_desc u) (world u) = (r, e, w) \<and>
    \<not> (r < 0 \<and> e = EINTR)"
  then show "Close P u = Some (u\<lparr>file_desc := -1, errno := (if r < 0 then e else 0), world := w,
        calls := calls u @ [CloseCall (file_desc u) r]\<rparr>)"
    using Close_run_plain [of u P r e w] by blast
next
  assume c: "Close P u = Some c'"
  from Close_closes_only [OF c]
  show "file_desc c' = -1" and "only_close (file_desc u) (new_calls u c')" by simp_all
next
  assume h: "Read P data len addr a = Some (res1, buf1, a1) \<and>
    sys_open P (busfile a) (world a) = (fd, w0) \<and> sys_ioctl P fd addr w0 = (io, x1) \<and>
    sys_read P fd data len x1 = (m1, pbuf1, y1)"
  then show "(res1 = Inr ()) = (0 \<le> fd \<and> 0 \<le> io \<and> m1 = len)"
    using Read_result [of P data len addr a res1 buf1 a1 fd w0 io x1 m1 pbuf1 y1] by blast
  from h show "no_repeats (new_calls a a1)"
    using Read_outcome [of P data len addr a res1 buf1 a1] by blast
next
  assume h: "Write P data len addr a = Some (res2, a2) \<and>
    sys_open P (busfile a) (world a) = (fd, w0) \<and> sys_ioctl P fd addr w0 = (io, x1) \<and>
    sys_write P fd data len x1 = (m2, y2)"
  then show "(res2 = Inr ()) = (0 \<le> fd \<and> 0 \<le> io \<and> m2 = len)"
    using Write_result [of P data len addr a res2 a2 fd w0 io x1 m2 y2] by blast
  from h show "no_repeats (new_calls a a2)"
    using Write_outcome [of P data len addr a res2 a2] by blast
next
  assume h: "Write_string P dat addr a = Some (res3, a3) \<and>
    sys_open P (busfile a) (world a) = (fd, w0) \<and> sys_ioctl P fd addr w0 = (io, x1) \<and>
    sys_write P fd (c_str dat) (int (length dat)) x1 = (m3, y3)"
  then show "(res3 = Inr ()) = (0 \<le> fd \<and> 0 \<le> io \<and> m3 = int (length dat))"
    using Write_string_result [of P dat addr a res3 a3 fd w0 io x1 m3 y3] by blast
  from h show "no_repeats (new_calls a a3)"
    using Write_string_outcome [of P dat addr a res3 a3] by blast
next
  assume h: "Xfer P odat olen idat ilen addr a = Some (res4, buf4, a4) \<and>
    sys_open P (busfile a) (world a) = (fd, w0) \<and> sys_ioctl P fd addr w0 = (io, x1) \<and>
    sys_write P fd odat olen x1 = (m4, y4) \<and> sys_read P fd idat ilen y4 = (k4, pbuf4, z4)"
  then show "(res4 = Inr ()) = (0 \<le> fd \<and> 0 \<le> io \<and> m4 = olen \<and> k4 = ilen)"
    using Xfer_result [of P odat olen idat ilen addr a res4 buf4 a4 fd w0 io x1 m4 y4 k4 pbuf4 z4]
    by blast
  from h show "no_repeats (new_calls a a4)"
    using Xfer_outcome [of P odat olen idat ilen addr a res4 buf4 a4] by blast
next
  assume c: "\<forall>v. \<exists>v'. Close P v = Some v'"
  then show "\<exists>x b v. Read P data len addr a = Some (x, b, v)"
    using Read_returns [of P data len addr a] by blast
  from c show "\<exists>x v. Write P data len addr a = Some (x, v)"
    using Write_returns [of P data len addr a] by blast
  from c show "\<exists>x v. Write_string P dat addr a = Some (x, v)"
    using Write_string_returns [of P dat addr a] by blast
  from c show "\<exists>x b v. Xfer P odat olen idat ilen addr a = Some (x, b, v)"
    using Xfer_returns [of P odat olen idat ilen addr a] by blast
qed


theorem Close_retries_while_interrupted_witness:
  "(let P = demo_platform 3 0 2 [0xAA, 0xBB] 2;
        s = \<lparr>busfile = ''/dev/i2c-1'', file_desc = 3, errno = 0, world = [(-1, 4), (-1, 4)],
              calls = []\<rparr>;
        c = \<lparr>busfile = ''/dev/i2c-1'', file_desc = -1, errno = 4, world = [],
              calls = [CloseCall 3 (-1), CloseCall 3 (-1), CloseCall 3 0]\<rparr>;
        u = \<lparr>busfile = ''/dev/i2c-1'', file_desc = 3, errno = 0, world = [(-1, 9)], calls = []\<rparr>;
        c' = \<lparr>busfile = ''/dev/i2c-1'', file_desc = -1, errno = 9, world = [],
               calls = [CloseCall 3 (-1)]\<rparr>;
        a = I2CBus_ctor ''/dev/i2c-1'' [(-1, 4)];
        a1 = \<lparr>busfile = ''/dev/i2c-1'', file_desc = -1, errno = 4, world = [],
               calls = [OpenCall ''/dev/i2c-1'' 3, IoctlCall 3 0x50 0, ReadCall 3 2 2,
                        CloseCall 3 (-1), CloseCall 3 0]\<rparr>;
        a2 = \<lparr>busfile = ''/dev/i2c-1'', file_desc = -1, errno = 4, world = [],
               calls = [OpenCall ''/dev/i2c-1'' 3, IoctlCall 3 0x50 0, WriteCall 3 [0, 0] 2 2,
                        CloseCall 3 (-1), CloseCall 3 0]\<rparr>;
        a3 = \<lparr>busfile = ''/dev/i2c-1'', file_desc = -1, errno = 4, world = [],
               calls = [OpenCall ''/dev/i2c-1'' 3, IoctlCall 3 0x50 0,
                        WriteCall 3 [97, 98, 0] 2 2, CloseCall 3 (-1), CloseCall 3 0]\<rparr>;
        r4 = Inl (I2CException \<lparr>message = ''I2CConnection::Xfer(odat, olen, idat, ilen, i2caddr)'',
               procname = ''Write length error.'', timeof_exc = 1536000000\<rparr>);
        a4 = \<lparr>busfile = ''/dev/i2c-1'', file_desc = -1, errno = 4, world = [],
               calls = [OpenCall ''/dev/i2c-1'' 3, IoctlCall 3 0x50 0, WriteCall 3 [0] 1 2,
                        CloseCall 3 (-1), CloseCall 3 0]\<rparr>
    in sys_close P 3 [(-1, 4), (-1, 4)] = (-1, EINTR, [(-1, 4)]) \<and>
       interrupted P 3 [(-1, 4)] \<and> \<not> interrupted P 3 [] \<and>
       Close P s = Some c \<and>
       new_calls s c = [CloseCall 3 (-1), CloseCall 3 (-1), CloseCall 3 0] \<and>
       sys_close P 3 [(-1, 9)] = (-1, 9, []) \<and> Close P u = Some c' \<and>
       only_close 3 (new_calls u c') \<and>
       Read P [0, 0] 2 0x50 a = Some (Inr (), [0xAA, 0xBB], a1) \<and> no_repeats (new_calls a a1) \<and>
       Write P [0, 0] 2 0x50 a = Some (Inr (), a2) \<and> no_repeats (new_calls a a2) \<and>
       Write_string P ''ab'' 0x50 a = Some (Inr (), a3) \<and> no_repeats (new_calls a a3) \<and>
       Xfer P [0] 1 [0, 0] 2 0x50 a = Some (r4, [0, 0], a4) \<and> no_repeats (new_calls a a4) \<and>
       (\<forall>v. \<exists>v'. Close P v = Some v')) \<and>
   (let t = \<lparr>busfile = ''/dev/i2c-1'', file_desc = 3, errno = 0, world = (), calls = []\<rparr>
    in sys_close stuck_platform 3 () = (-1, EINTR, ()) \<and>
       (\<forall>i. interrupted stuck_platform 3 (close_world stuck_platform 3 i ())) \<and>
       Close stuck_platform t = None)"
proof -
  let ?P = "demo_platform 3 0 2 [0xAA, 0xBB] 2"
  let ?s = "\<lparr>busfile = ''/dev/i2c-1'', file_desc = 3, errno = 0,
             world = [(-1, 4), (-1, 4)] :: (int \<times> int) list, calls = []\<rparr>"
  let ?c = "\<lparr>busfile = ''/dev/i2c-1'', file_desc = -1, errno = 4, world = [] :: (int \<times> int) list,
              calls = [CloseCall 3 (-1), CloseCall 3 (-1), CloseCall 3 0]\<rparr>"
  let ?u = "\<lparr>busfile = ''/dev/i2c-1'', file_desc = 3, errno = 0,
             world = [(-1, 9)] :: (int \<times> int) list, calls = []\<rparr>"
  let ?c' = "\<lparr>busfile = ''/dev/i2c-1'', file_desc = -1, errno = 9, world = [] :: (int \<times> int) list,
               calls = [CloseCall 3 (-1)]\<rparr>"
  let ?a = "I2CBus_ctor ''/dev/i2c-1'' [(-1, 4)] :: (int \<times> int) list state"
  let ?a1 = "\<lparr>busfile = ''/dev/i2c-1'', file_desc = -1, errno = 4, world = [] :: (int \<times> int) list,
               calls = [OpenCall ''/dev/i2c-1'' 3, IoctlCall 3 0x50 0, ReadCall 3 2 2,
                        CloseCall 3 (-1), CloseCall 3 0]\<rparr>"
  let ?a2 = "\<lparr>busfile = ''/dev/i2c-1'', file_desc = -1, errno = 4, world = [] :: (int \<times> int) list,
               calls = [OpenCall ''/dev/i2c-1'' 3, IoctlCall 3 0x50 0, WriteCall 3 [0, 0] 2 2,
                        CloseCall 3 (-1), CloseCall 3 0]\<rparr>"
  let ?a3 = "\<lparr>busfile = ''/dev/i2c-1'', file_desc = -1, errno = 4, world = [] :: (int \<times> int) list,
               calls = [OpenCall ''/dev/i2c-1'' 3, IoctlCall 3 0x50 0,
                        WriteCall 3 [97, 98, 0] 2 2, CloseCall 3 (-1), CloseCall 3 0]\<rparr>"
  let ?r4 = "Inl (I2CException \<lparr>message = ''I2CConnection::Xfer(odat, olen, idat, ilen, i2caddr)'',
               procname = ''Write length error.'', timeof_exc = 1536000000\<rparr>) :: thrown + unit"
  let ?a4 = "\<lparr>busfile = ''/dev/i2c-1'', file_desc = -1, errno = 4, world = [] :: (int \<times> int) list,
               calls = [OpenCall ''/dev/i2c-1'' 3, IoctlCall 3 0x50 0, WriteCall 3 [0] 1 2,
                        CloseCall 3 (-1), CloseCall 3 0]\<rparr>"
  have k: "sys_close ?P 3 [(-1, 4), (-1, 4)] = (-1, EINTR, [(-1, 4)])"
    "interrupted ?P 3 [(-1, 4)]" "\<not> interrupted ?P 3 []"
    "sys_close ?P 3 [(-1, 9)] = (-1, 9, [])" "\<not> ((-1::int) < 0 \<and> (9::int) = EINTR)"
    by (simp_all add: demo_platform_def interrupted_def EINTR_def)
  have kk: "\<forall>i<Suc 0. interrupted ?P 3 (close_world ?P 3 i [(-1, 4)])"
    "\<not> interrupted ?P 3 (close_world ?P 3 (Suc 0) [(-1, 4)])"
    by (simp_all add: demo_platform_def interrupted_def EINTR_def)
  have p: "sys_open ?P (busfile ?a) (world ?a) = (3, [(-1, 4)])"
    "sys_ioctl ?P 3 0x50 [(-1, 4)] = (0, [(-1, 4)])"
    "sys_read ?P 3 [0, 0] 2 [(-1, 4)] = (2, [0xAA, 0xBB], [(-1, 4)])"
    "sys_write ?P 3 [0, 0] 2 [(-1, 4)] = (2, [(-1, 4)])"
    "sys_write ?P 3 (c_str ''ab'') (int (length ''ab'')) [(-1, 4)] = (2, [(-1, 4)])"
    "sys_write ?P 3 [0] 1 [(-1, 4)] = (2, [(-1, 4)])"
    by (simp_all add: demo_platform_def I2CBus_ctor_def)
  have e0: "Close ?P ?s = Some ?c" "Close ?P ?u = Some ?c'" by code_simp+
  have e1: "Read ?P [0, 0] 2 0x50 ?a = Some (Inr (), [0xAA, 0xBB], ?a1)" by code_simp
  have e2: "Write ?P [0, 0] 2 0x50 ?a = Some (Inr (), ?a2)" by code_simp
  have e3: "Write_string ?P ''ab'' 0x50 ?a = Some (Inr (), ?a3)" by code_simp
  have e4: "Xfer ?P [0] 1 [0, 0] 2 0x50 ?a = Some (?r4, [0, 0], ?a4)" by code_simp
  have nc: "new_calls ?s ?c = [CloseCall 3 (-1), CloseCall 3 (-1), CloseCall 3 0]"
    by (simp add: new_calls_def)
  have c: "\<forall>v. \<exists>v'. Close ?P v = Some v'"
    using demo_Close_returns by blast
  from Close_retries_while_interrupted [where P = ?P and s = ?s and ?r1.0 = "-1"
      and ?w1.0 = "[(-1, 4)]" and n = "Suc 0" and u = ?u and r = "-1" and e = 9 and w = "[]"
      and c' = ?c'
      and data = "[0, 0]" and len = 2 and addr = "0x50" and a = ?a and ?res1.0 = "Inr ()"
      and ?buf1.0 = "[0xAA, 0xBB]" and ?a1.0 = ?a1 and fd = 3 and ?w0.0 = "[(-1, 4)]"
      and io = 0 and ?x1.0 = "[(-1, 4)]" and ?m1.0 = 2 and ?pbuf1.0 = "[0xAA, 0xBB]"
      and ?y1.0 = "[(-1, 4)]" and ?res2.0 = "Inr ()" and ?a2.0 = ?a2 and ?m2.0 = 2
      and ?y2.0 = "[(-1, 4)]" and dat = "''ab''" and ?res3.0 = "Inr ()" and ?a3.0 = ?a3
      and ?m3.0 = 2 and ?y3.0 = "[(-1, 4)]" and odat = "[0]" and olen = 1
      and idat = "[0, 0]" and ilen = 2 and ?res4.0 = ?r4 and ?buf4.0 = "[0, 0]" and ?a4.0 = ?a4
      and ?m4.0 = 2 and ?y4.0 = "[(-1, 4)]" and ?k4.0 = 2 and ?pbuf4.0 = "[0xAA, 0xBB]"
      and ?z4.0 = "[(-1, 4)]"]
    k kk p e0 e1 e2 e3 e4 nc c
  have 1: "sys_close ?P 3 [(-1, 4), (-1, 4)] = (-1, EINTR, [(-1, 4)]) \<and>
       interrupted ?P 3 [(-1, 4)] \<and> \<not> interrupted ?P 3 [] \<and>
       Close ?P ?s = Some ?c \<and>
       new_calls ?s ?c = [CloseCall 3 (-1), CloseCall 3 (-1), CloseCall 3 0] \<and>
       sys_close ?P 3 [(-1, 9)] = (-1, 9, []) \<and> Close ?P ?u = Some ?c' \<and>
       only_close 3 (new_calls ?u ?c') \<and>
       Read ?P [0, 0] 2 0x50 ?a = Some (Inr (), [0xAA, 0xBB], ?a1) \<and> no_repeats (new_calls ?a ?a1) \<and>
       Write ?P [0, 0] 2 0x50 ?a = Some (Inr (), ?a2) \<and> no_repeats (new_calls ?a ?a2) \<and>
       Write_string ?P ''ab'' 0x50 ?a = Some (Inr (), ?a3) \<and> no_repeats (new_calls ?a ?a3) \<and>
       Xfer ?P [0] 1 [0, 0] 2 0x50 ?a = Some (?r4, [0, 0], ?a4) \<and> no_repeats (new_calls ?a ?a4) \<and>
       (\<forall>v. \<exists>v'. Close ?P v = Some v')"
    by simp
  let ?t = "\<lparr>busfile = ''/dev/i2c-1'', file_desc = 3, errno = 0, world = (), calls = []\<rparr>"
  have s1: "sys_close stuck_platform 3 () = (-1, EINTR, ())"
    "\<forall>i. interrupted stuck_platform 3 (close_world stuck_platform 3 i ())"
    by (simp_all add: stuck_platform_def interrupted_def)
  from Close_retries_while_interrupted [where P = stuck_platform and t = ?t and ?q1.0 = "-1"
      and ?v1.0 = "()"] s1
  have 2: "sys_close stuck_platform 3 () = (-1, EINTR, ()) \<and>
       (\<forall>i. interrupted stuck_platform 3 (close_world stuck_platform 3 i ())) \<and>
       Close stuck_platform ?t = None"
    by simp
  from 1 2 show ?thesis unfolding Let_def by blast
qed

subsection \<open>Write with a string\<close>







subsection \<open>Xfer with an address byte\<close>

text \<open>
  C9. For the four-argument \<open>Xfer\<close>, with the answers of the platform named: \<open>::open\<close>
  gives \<open>fd\<close>, the \<open>ioctl\<close> gives \<open>io\<close>, \<open>::write\<close> of the one byte \<open>addr\<close> with length 1
  reports \<open>n\<close>, and \<open>::read\<close> of \<open>ilen\<close> bytes, in the world after that write, reports
  \<open>k\<close>. A call that returns has done what the five-argument \<open>Xfer\<close> does. If \<open>::open\<close>
  failed, it is the only call and the generic open failure is raised. If the \<open>ioctl\<close>
  failed, \<open>I2CNotFoundException\<close> is raised after the close. If \<open>n\<close> is not 1, the log
  is open, \<open>ioctl\<close>, the write of \<open>[addr]\<close> and the closes, the generic write length
  error is raised and the buffer is untouched. If \<open>n\<close> is 1, the log is open, \<open>ioctl\<close>,
  the write of \<open>[addr]\<close>, the read of \<open>ilen\<close> bytes and the closes; the result is the
  generic read length error if \<open>k\<close> is not \<open>ilen\<close> and success otherwise, with the buffer
  that \<open>::read\<close> has left. The function is the five-argument \<open>Xfer\<close> on \<open>[addr]\<close> and 1,
  and it returns on a platform on which \<open>Close\<close> returns.
\<close>

theorem Xfer_addr_like_Xfer:
  "(Xfer_addr P addr idat ilen i2caddr s = Some (res, buf, s') \<and>
    sys_open P (busfile s) (world s) = (fd, w0) \<and> sys_ioctl P fd i2caddr w0 = (io, w1) \<and>
    sys_write P fd [addr] 1 w1 = (n, w2) \<and> sys_read P fd idat ilen w2 = (k, pbuf, w3) \<longrightarrow>
      (fd < 0 \<longrightarrow>
         res = Inl (I2CException (I2CException_ctor ''I2CBus::Open(addr)''
                 (''Unable to open I2C Bus file '' @ busfile s) (sys_time P w0))) \<and>
         buf = idat \<and> file_desc s' = fd \<and> world s' = w0 \<and>
         new_calls s s' = [OpenCall (busfile s) fd]) \<and>
      (0 \<le> fd \<and> io < 0 \<longrightarrow>
         res = Inl (I2CNotFoundException (I2CException_ctor ''I2CBus::Open(addr)''
                 (''Unable to find device address 0x'' @ hex2 i2caddr) (sys_time P (world s')))) \<and>
         buf = idat \<and> file_desc s' = -1 \<and>
         (\<exists>cs. new_calls s s' = [OpenCall (busfile s) fd, IoctlCall fd i2caddr io] @ cs \<and>
               cs \<noteq> [] \<and> only_close fd cs)) \<and>
      (0 \<le> fd \<and> 0 \<le> io \<and> n \<noteq> 1 \<longrightarrow>
         res = Inl (I2CException (I2CException_ctor
                  ''I2CConnection::Xfer(odat, olen, idat, ilen, i2caddr)''
                  ''Write length error.'' (sys_time P (world s')))) \<and>
         buf = idat \<and> file_desc s' = -1 \<and>
         (\<exists>cs. new_calls s s' = [OpenCall (busfile s) fd, IoctlCall fd i2caddr io,
                                 WriteCall fd [addr] 1 n] @ cs \<and>
               cs \<noteq> [] \<and> only_close fd cs)) \<and>
      (0 \<le> fd \<and> 0 \<le> io \<and> n = 1 \<longrightarrow>
         res = (if k \<noteq> ilen then Inl (I2CException (I2CException_ctor
                  ''I2CConnection::Xfer(odat, olen, idat, ilen, i2caddr)''
                  ''Read length error.'' (sys_time P (world s')))) else Inr ()) \<and>
         buf = pbuf \<and> file_desc s' = -1 \<and>
         (\<exists>cs. new_calls s s' = [OpenCall (busfile s) fd, IoctlCall fd i2caddr io,
                                 WriteCall fd [addr] 1 1, ReadCall fd ilen k] @ cs \<and>
               cs \<noteq> [] \<and> only_close fd cs))) \<and>
   Xfer_addr P addr idat ilen i2caddr s = Xfer P [addr] 1 idat ilen i2caddr s \<and>
   ((\<forall>u. \<exists>u'. Close P u = Some u') \<longrightarrow>
      (\<exists>x b u. Xfer_addr P addr idat ilen i2caddr s = Some (x, b, u)))"
proof (intro conjI impI)
  assume h: "Xfer_addr P addr idat ilen i2caddr s = Some (res, buf, s') \<and>
    sys_open P (busfile s) (world s) = (fd, w0) \<and> sys_ioctl P fd i2caddr w0 = (io, w1) \<and>
    sys_write P fd [addr] 1 w1 = (n, w2) \<and> sys_read P fd idat ilen w2 = (k, pbuf, w3)"
  then have x: "Xfer P [addr] 1 idat ilen i2caddr s = Some (res, buf, s')"
    and o: "sys_open P (busfile s) (world s) = (fd, w0)"
    and i: "sys_ioctl P fd i2caddr w0 = (io, w1)"
    and w: "sys_write P fd [addr] 1 w1 = (n, w2)"
    and r: "sys_read P fd idat ilen w2 = (k, pbuf, w3)"
    by (simp_all add: Xfer_addr_def)
  note xs = Xfer_session [OF x o i w r]
  {
    assume "fd < 0"
    with xs show "res = Inl (I2CException (I2CException_ctor ''I2CBus::Open(addr)''
                 (''Unable to open I2C Bus file '' @ busfile s) (sys_time P w0)))"
      and "buf = idat" and "file_desc s' = fd" and "world s' = w0"
      and "new_calls s s' = [OpenCall (busfile s) fd]"
      by simp_all
  }
  {
    assume "0 \<le> fd \<and> io < 0"
    with xs show "res = Inl (I2CNotFoundException (I2CException_ctor ''I2CBus::Open(addr)''
                 (''Unable to find device address 0x'' @ hex2 i2caddr) (sys_time P (world s'))))"
      and "buf = idat" and "file_desc s' = -1"
      and "\<exists>cs. new_calls s s' = [OpenCall (busfile s) fd, IoctlCall fd i2caddr io] @ cs \<and>
               cs \<noteq> [] \<and> only_close fd cs"
      by simp_all
  }
  {
    assume "0 \<le> fd \<and> 0 \<le> io \<and> n \<noteq> 1"
    with xs show "res = Inl (I2CException (I2CException_ctor
                  ''I2CConnection::Xfer(odat, olen, idat, ilen, i2caddr)''
                  ''Write length error.'' (sys_time P (world s'))))"
      and "buf = idat" and "file_desc s' = -1"
      and "\<exists>cs. new_calls s s' = [OpenCall (busfile s) fd, IoctlCall fd i2caddr io,
                                 WriteCall fd [addr] 1 n] @ cs \<and>
               cs \<noteq> [] \<and> only_close fd cs"
      by simp_all
  }
  {
    assume "0 \<le> fd \<and> 0 \<le> io \<and> n = 1"
    with xs show "res = (if k \<noteq> ilen then Inl (I2CException (I2CException_ctor
                  ''I2CConnection::Xfer(odat, olen, idat, ilen, i2caddr)''
                  ''Read length error.'' (sys_time P (world s')))) else Inr ())"
      and "buf = pbuf" and "file_desc s' = -1"
      and "\<exists>cs. new_calls s s' = [OpenCall (busfile s) fd, IoctlCall fd i2caddr io,
                                 WriteCall fd [addr] 1 1, ReadCall fd ilen k] @ cs \<and>
               cs \<noteq> [] \<and> only_close fd cs"
      by simp_all
  }
next
  show "Xfer_addr P addr idat ilen i2caddr s = Xfer P [addr] 1 idat ilen i2caddr s"
    by (simp add: Xfer_addr_def)
next
  assume "\<forall>u. \<exists>u'. Close P u = Some u'"
  then show "\<exists>x b u. Xfer_addr P addr idat ilen i2caddr s = Some (x, b, u)"
    using Xfer_returns [of P "[addr]" 1 idat ilen i2caddr s] by (simp add: Xfer_addr_def)
qed

theorem Xfer_addr_like_Xfer_witness:
  "(let P = demo_platform 3 0 2 [0xAA, 0xBB] 1;
        s = I2CBus_ctor ''/dev/i2c-1'' [];
        s' = \<lparr>busfile = ''/dev/i2c-1'', file_desc = -1, errno = 0, world = [],
               calls = [OpenCall ''/dev/i2c-1'' 3, IoctlCall 3 0x50 0, WriteCall 3 [0x10] 1 1,
                        ReadCall 3 2 2, CloseCall 3 0]\<rparr>
    in sys_open P (busfile s) (world s) = (3, []) \<and> sys_ioctl P 3 0x50 [] = (0, []) \<and>
       sys_write P 3 [0x10] 1 [] = (1, []) \<and>
       sys_read P 3 [0, 0] 2 [] = (2, [0xAA, 0xBB], []) \<and>
       Xfer_addr P 0x10 [0, 0] 2 0x50 s = Some (Inr (), [0xAA, 0xBB], s') \<and>
       file_desc s' = -1 \<and> (\<forall>u. \<exists>u'. Close P u = Some u')) \<and>
   (let P = demo_platform 3 0 2 [0xAA, 0xBB] 0;
        s = I2CBus_ctor ''/dev/i2c-1'' [];
        res = Inl (I2CException \<lparr>message = ''I2CConnection::Xfer(odat, olen, idat, ilen, i2caddr)'',
                procname = ''Write length error.'', timeof_exc = 1536000000\<rparr>);
        s' = \<lparr>busfile = ''/dev/i2c-1'', file_desc = -1, errno = 0, world = [],
               calls = [OpenCall ''/dev/i2c-1'' 3, IoctlCall 3 0x50 0, WriteCall 3 [0x10] 1 0,
                        CloseCall 3 0]\<rparr>
    in sys_write P 3 [0x10] 1 [] = (0, []) \<and>
       Xfer_addr P 0x10 [0, 0] 2 0x50 s = Some (res, [0, 0], s') \<and> file_desc s' = -1) \<and>
   (let P = demo_platform (-1) 0 0 [] 0;
        s = I2CBus_ctor ''/dev/i2c-1'' [];
        res = Inl (I2CException \<lparr>message = ''I2CBus::Open(addr)'',
               procname = ''Unable to open I2C Bus file /dev/i2c-1'', timeof_exc = 1536000000\<rparr>);
        s' = \<lparr>busfile = ''/dev/i2c-1'', file_desc = -1, errno = 0, world = [],
               calls = [OpenCall ''/dev/i2c-1'' (-1)]\<rparr>
    in sys_open P (busfile s) (world s) = (-1, []) \<and>
       Xfer_addr P 0x10 [0, 0] 2 0x50 s = Some (res, [0, 0], s') \<and>
       new_calls s s' = [OpenCall ''/dev/i2c-1'' (-1)])"
proof -
  let ?s = "I2CBus_ctor ''/dev/i2c-1'' [] :: (int \<times> int) list state"
  let ?P = "demo_platform 3 0 2 [0xAA, 0xBB] 1"
  let ?s' = "\<lparr>busfile = ''/dev/i2c-1'', file_desc = -1, errno = 0, world = [] :: (int \<times> int) list,
               calls = [OpenCall ''/dev/i2c-1'' 3, IoctlCall 3 0x50 0, WriteCall 3 [0x10] 1 1,
                        ReadCall 3 2 2, CloseCall 3 0]\<rparr>"
  have p1: "sys_open ?P (busfile ?s) (world ?s) = (3, [])" "sys_ioctl ?P 3 0x50 [] = (0, [])"
    "sys_write ?P 3 [0x10] 1 [] = (1, [])" "sys_read ?P 3 [0, 0] 2 [] = (2, [0xAA, 0xBB], [])"
    by (simp_all add: demo_platform_def I2CBus_ctor_def)
  have e1: "Xfer_addr ?P 0x10 [0, 0] 2 0x50 ?s = Some (Inr (), [0xAA, 0xBB], ?s')" by code_simp
  have c: "\<forall>u. \<exists>u'. Close ?P u = Some u'"
    using demo_Close_returns by blast
  from Xfer_addr_like_Xfer [where P = ?P and addr = "0x10" and idat = "[0, 0]" and ilen = 2
      and ?i2caddr = "0x50" and s = ?s and res = "Inr ()" and buf = "[0xAA, 0xBB]" and s' = ?s'
      and fd = 3 and ?w0.0 = "[]" and io = 0 and ?w1.0 = "[]" and n = 1 and ?w2.0 = "[]"
      and k = 2 and pbuf = "[0xAA, 0xBB]" and ?w3.0 = "[]"]
    p1 e1 c
  have 1: "sys_open ?P (busfile ?s) (world ?s) = (3, []) \<and> sys_ioctl ?P 3 0x50 [] = (0, []) \<and>
       sys_write ?P 3 [0x10] 1 [] = (1, []) \<and>
       sys_read ?P 3 [0, 0] 2 [] = (2, [0xAA, 0xBB], []) \<and>
       Xfer_addr ?P 0x10 [0, 0] 2 0x50 ?s = Some (Inr (), [0xAA, 0xBB], ?s') \<and>
       file_desc ?s' = -1 \<and> (\<forall>u. \<exists>u'. Close ?P u = Some u')"
    by simp
  let ?Q = "demo_platform 3 0 2 [0xAA, 0xBB] 0"
  let ?rw = "Inl (I2CException \<lparr>message = ''I2CConnection::Xfer(odat, olen, idat, ilen, i2caddr)'',
                procname = ''Write length error.'', timeof_exc = 1536000000\<rparr>) :: thrown + unit"
  let ?w' = "\<lparr>busfile = ''/dev/i2c-1'', file_desc = -1, errno = 0, world = [] :: (int \<times> int) list,
               calls = [OpenCall ''/dev/i2c-1'' 3, IoctlCall 3 0x50 0, WriteCall 3 [0x10] 1 0,
                        CloseCall 3 0]\<rparr>"
  have p2: "sys_open ?Q (busfile ?s) (world ?s) = (3, [])" "sys_ioctl ?Q 3 0x50 [] = (0, [])"
    "sys_write ?Q 3 [0x10] 1 [] = (0, [])" "sys_read ?Q 3 [0, 0] 2 [] = (2, [0xAA, 0xBB], [])"
    by (simp_all add: demo_platform_def I2CBus_ctor_def)
  have e2: "Xfer_addr ?Q 0x10 [0, 0] 2 0x50 ?s = Some (?rw, [0, 0], ?w')" by code_simp
  from Xfer_addr_like_Xfer [where P = ?Q and addr = "0x10" and idat = "[0, 0]" and ilen = 2
      and ?i2caddr = "0x50" and s = ?s and res = ?rw and buf = "[0, 0]" and s' = ?w'
      and fd = 3 and ?w0.0 = "[]" and io = 0 and ?w1.0 = "[]" and n = 0 and ?w2.0 = "[]"
      and k = 2 and pbuf = "[0xAA, 0xBB]" and ?w3.0 = "[]"]
    p2 e2
  have 2: "sys_write ?Q 3 [0x10] 1 [] = (0, []) \<and>
       Xfer_addr ?Q 0x10 [0, 0] 2 0x50 ?s = Some (?rw, [0, 0], ?w') \<and> file_desc ?w' = -1"
    by simp
  let ?R = "demo_platform (-1) 0 0 [] 0"
  let ?ro = "Inl (I2CException \<lparr>message = ''I2CBus::Open(addr)'',
               procname = ''Unable to open I2C Bus file /dev/i2c-1'', timeof_exc = 1536000000\<rparr>)
             :: thrown + unit"
  let ?o' = "\<lparr>busfile = ''/dev/i2c-1'', file_desc = -1, errno = 0, world = [] :: (int \<times> int) list,
               calls = [OpenCall ''/dev/i2c-1'' (-1)]\<rparr>"
  have p3: "sys_open ?R (busfile ?s) (world ?s) = (-1, [])" "sys_ioctl ?R (-1) 0x50 [] = (0, [])"
    "sys_write ?R (-1) [0x10] 1 [] = (0, [])" "sys_read ?R (-1) [0, 0] 2 [] = (0, [0, 0], [])"
    by (simp_all add: demo_platform_def I2CBus_ctor_def)
  have e3: "Xfer_addr ?R 0x10 [0, 0] 2 0x50 ?s = Some (?ro, [0, 0], ?o')" by code_simp
  from Xfer_addr_like_Xfer [where P = ?R and addr = "0x10" and idat = "[0, 0]" and ilen = 2
      and ?i2caddr = "0x50" and s = ?s and res = ?ro and buf = "[0, 0]" and s' = ?o'
      and fd = "-1" and ?w0.0 = "[]" and io = 0 and ?w1.0 = "[]" and n = 0 and ?w2.0 = "[]"
      and k = 0 and pbuf = "[0, 0]" and ?w3.0 = "[]"]
    p3 e3
  have 3: "sys_open ?R (busfile ?s) (world ?s) = (-1, []) \<and>
       Xfer_addr ?R 0x10 [0, 0] 2 0x50 ?s = Some (?ro, [0, 0], ?o') \<and>
       new_calls ?s ?o' = [OpenCall ''/dev/i2c-1'' (-1)]"
    by (simp add: I2CBus_ctor_def)
  from 1 2 3 show ?thesis unfolding Let_def by blast
qed

subsection \<open>The contents of a failure\<close>

text \<open>
  C5. A failure should answer \<open>who()\<close> with the name of the function that raised it and
  \<open>why()\<close> and \<open>what()\<close> with the error message. The code passes the function name as
  the first argument of the constructor and the message as the second, while the
  constructor takes the message first. For a read of 4 bytes at address 0x50 on which the
  platform reports 2 bytes, \<open>who()\<close> is the error message and \<open>why()\<close> and \<open>what()\<close> are
  the function name; \<open>when()\<close> is the time of the throw.
\<close>

theorem Read_failure_who_why_swapped:
  "map_option who (raised (Read (demo_platform 3 0 2 [0xAA, 0xBB] 1) [0, 0, 0, 0] 4 0x50
      (I2CBus_ctor ''/dev/i2c-1'' []))) = Some ''Read length error.'' \<and>
   map_option why (raised (Read (demo_platform 3 0 2 [0xAA, 0xBB] 1) [0, 0, 0, 0] 4 0x50
      (I2CBus_ctor ''/dev/i2c-1'' []))) = Some ''I2CBus::Read(data, len, addr)'' \<and>
   map_option what (raised (Read (demo_platform 3 0 2 [0xAA, 0xBB] 1) [0, 0, 0, 0] 4 0x50
      (I2CBus_ctor ''/dev/i2c-1'' []))) = Some ''I2CBus::Read(data, len, addr)'' \<and>
   map_option when_exc (raised (Read (demo_platform 3 0 2 [0xAA, 0xBB] 1) [0, 0, 0, 0] 4 0x50
      (I2CBus_ctor ''/dev/i2c-1'' []))) = Some 1536000000"
  by code_simp

end
